theory Spec2Isabelle
  imports Complex_Main "HOL-Library.AList"
begin

section \<open>Data model of the sound pad engine\<close>

text \<open>
  The engine is the body of \<^verbatim>\<open>AudioProvider\<close> in
  \<^verbatim>\<open>src/components/audio-provider.tsx\<close>. Its React state and refs become the fields of
  one record that every operation takes and returns. JavaScript numbers are modelled as
  \<^typ>\<open>real\<close> (no NaN, no rounding), counters as \<^typ>\<open>int\<close>. A JavaScript object used
  as a dictionary that the code iterates over (\<^verbatim>\<open>Object.entries\<close>, \<^verbatim>\<open>Object.values\<close>)
  is an association list read with \<^const>\<open>map_of\<close> and written with \<^const>\<open>AList.update\<close>;
  one that is only indexed is a map. An \<^verbatim>\<open>HTMLAudioElement\<close> is an address into the
  store \<open>elems\<close>, so that the same element can sit in the cache and several times in an
  instance list, as it does in the source. An \<^verbatim>\<open>async\<close> function is modelled as one
  atomic step: interleavings at its \<^verbatim>\<open>await\<close> points are outside the model.
\<close>

type_synonym blob = "nat list"

record AudioData =
  pad_id :: string
  name :: string
  audioBlob :: "blob option"
  speed :: real
  balance :: real
  echoDelay :: "real option"
  echoFeedback :: "real option"
  volume :: "real option"
  color :: "string option"
  loop :: "bool option"

text \<open>\<^verbatim>\<open>Partial<AudioData>\<close>: every field may be absent; an explicit \<^verbatim>\<open>undefined\<close> and
  an absent field are both \<^const>\<open>None\<close>, as \<^verbatim>\<open>!== undefined\<close> cannot tell them apart.\<close>

record AudioDataPartial =
  name_p :: "string option"
  audioBlob_p :: "blob option"
  speed_p :: "real option"
  balance_p :: "real option"
  echoDelay_p :: "real option"
  echoFeedback_p :: "real option"
  volume_p :: "real option"
  color_p :: "string option"
  loop_p :: "bool option"

text \<open>The fields of an \<^verbatim>\<open>HTMLAudioElement\<close> that the engine writes. \<open>src\<close> is the object
  URL the element was constructed from; every element of the engine is built from
  \<^verbatim>\<open>URL.createObjectURL\<close>, so \<^verbatim>\<open>audio.src && audio.src.startsWith("blob:")\<close> holds for
  each of them.\<close>

record HTMLAudioElement =
  src :: nat
  paused :: bool
  currentTime :: real
  playbackRate :: real
  el_volume :: real
  el_loop :: bool

text \<open>One entry of \<^verbatim>\<open>audioNodesRef.current[id]\<close>: \<open>mediaElement\<close> is
  \<^verbatim>\<open>source.mediaElement\<close>, \<open>pan\<close> and \<open>gain\<close> the values of the two nodes.\<close>

record nodeSet =
  mediaElement :: nat
  pan :: real
  gain :: real

record cachedAudio =
  audio :: nat
  url :: nat

record resourceCount =
  audioElements :: int
  audioNodes :: int
  objectUrls :: int

datatype ctx_state = Suspended | Running | Closed

record engine =
  audioData :: "string \<rightharpoonup> AudioData"
  isPlaying :: "string \<rightharpoonup> bool"
  buttonOrder :: "string list"
  audioInstancesRefs :: "(string \<times> nat list) list"
  audioContextRef :: "ctx_state option"
  audioNodesRef :: "(string \<times> nodeSet list) list"
  resourceCountRef :: resourceCount
  cachedAudioRef :: "(string \<times> cachedAudio) list"
  elems :: "nat \<Rightarrow> HTMLAudioElement"
  revokedUrls :: "nat set"
  timers :: "(nat \<times> real) list"
  nextId :: nat

text \<open>What one call of \<^verbatim>\<open>playAudio\<close> meets in the browser: whether
  \<^verbatim>\<open>new AudioContext()\<close> throws and the state of a fresh context, whether
  \<^verbatim>\<open>resume()\<close> rejects, whether building the pan/gain chain of the \<open>i\<close>-th new element
  throws, and whether \<^verbatim>\<open>audio.play()\<close> rejects (first attempt and retry).\<close>

record play_env =
  createThrows :: bool
  createdState :: ctx_state
  resumeRejects :: bool
  graphThrows :: "nat \<Rightarrow> bool"
  playRejects :: bool
  retryResumeRejects :: bool
  retryPlayRejects :: bool

section \<open>JavaScript helpers\<close>

text \<open>\<^verbatim>\<open>x || d\<close> on an optional number: \<^verbatim>\<open>undefined\<close> and \<^verbatim>\<open>0\<close> are falsy.\<close>

definition num_or :: "real option \<Rightarrow> real \<Rightarrow> real" where
  "num_or x d = (case x of None \<Rightarrow> d | Some v \<Rightarrow> if v = 0 then d else v)"

text \<open>\<^verbatim>\<open>x || d\<close> on an optional string: \<^verbatim>\<open>undefined\<close> and \<^verbatim>\<open>""\<close> are falsy.\<close>

definition str_or :: "string option \<Rightarrow> string \<Rightarrow> string" where
  "str_or x d = (case x of None \<Rightarrow> d | Some v \<Rightarrow> if v = [] then d else v)"

definition truthy :: "bool option \<Rightarrow> bool" where
  "truthy x = (x = Some True)"

text \<open>\<^verbatim>\<open>Array.prototype.findIndex\<close> and \<^verbatim>\<open>indexOf\<close>: the first position, or nothing
  where JavaScript returns \<^verbatim>\<open>-1\<close>.\<close>

fun findIndex :: "('a \<Rightarrow> bool) \<Rightarrow> 'a list \<Rightarrow> nat option" where
  "findIndex P [] = None"
| "findIndex P (x # xs) =
     (if P x then Some 0 else (case findIndex P xs of None \<Rightarrow> None | Some i \<Rightarrow> Some (Suc i)))"

definition indexOf :: "'a list \<Rightarrow> 'a \<Rightarrow> nat option" where
  "indexOf xs a = findIndex (\<lambda>x. x = a) xs"

text \<open>\<^verbatim>\<open>xs.splice(i, 1)\<close>, the list that stays.\<close>

definition splice1 :: "nat \<Rightarrow> 'a list \<Rightarrow> 'a list" where
  "splice1 i xs = take i xs @ drop (Suc i) xs"

text \<open>\<^verbatim>\<open>i.toString()\<close> for a natural number: its decimal digits.\<close>

fun digits :: "nat \<Rightarrow> nat \<Rightarrow> string" where
  "digits 0 n = []"
| "digits (Suc fuel) n =
     (if n < 10 then [char_of (48 + n)]
      else digits fuel (n div 10) @ [char_of (48 + n mod 10)])"

definition toString :: "nat \<Rightarrow> string" where
  "toString n = digits (Suc n) n"

definition padName :: "string \<Rightarrow> string" where
  "padName i = ''Pad '' @ i"

section \<open>Counters\<close>

definition decr :: "int \<Rightarrow> int" where
  "decr n = max 0 (n - 1)"

definition decAudioNodes :: "engine \<Rightarrow> engine" where
  "decAudioNodes s =
     s\<lparr>resourceCountRef := (resourceCountRef s)\<lparr>audioNodes := decr (audioNodes (resourceCountRef s))\<rparr>\<rparr>"

definition decAudioElements :: "engine \<Rightarrow> engine" where
  "decAudioElements s =
     s\<lparr>resourceCountRef := (resourceCountRef s)\<lparr>audioElements := decr (audioElements (resourceCountRef s))\<rparr>\<rparr>"

definition decObjectUrls :: "engine \<Rightarrow> engine" where
  "decObjectUrls s =
     s\<lparr>resourceCountRef := (resourceCountRef s)\<lparr>objectUrls := decr (objectUrls (resourceCountRef s))\<rparr>\<rparr>"

definition incAudioNodes :: "engine \<Rightarrow> engine" where
  "incAudioNodes s =
     s\<lparr>resourceCountRef := (resourceCountRef s)\<lparr>audioNodes := audioNodes (resourceCountRef s) + 1\<rparr>\<rparr>"

definition incAudioElements :: "engine \<Rightarrow> engine" where
  "incAudioElements s =
     s\<lparr>resourceCountRef := (resourceCountRef s)\<lparr>audioElements := audioElements (resourceCountRef s) + 1\<rparr>\<rparr>"

definition incObjectUrls :: "engine \<Rightarrow> engine" where
  "incObjectUrls s =
     s\<lparr>resourceCountRef := (resourceCountRef s)\<lparr>objectUrls := objectUrls (resourceCountRef s) + 1\<rparr>\<rparr>"

section \<open>Element operations\<close>

definition pause :: "nat \<Rightarrow> engine \<Rightarrow> engine" where
  "pause a s = s\<lparr>elems := (elems s)(a := (elems s a)\<lparr>paused := True\<rparr>)\<rparr>"

definition rewind :: "nat \<Rightarrow> engine \<Rightarrow> engine" where
  "rewind a s = s\<lparr>elems := (elems s)(a := (elems s a)\<lparr>currentTime := 0\<rparr>)\<rparr>"

definition revokeObjectURL :: "nat \<Rightarrow> engine \<Rightarrow> engine" where
  "revokeObjectURL u s = s\<lparr>revokedUrls := insert u (revokedUrls s)\<rparr>"

text \<open>\<^verbatim>\<open>new Audio(URL.createObjectURL(blob))\<close>: a fresh element on a fresh URL. The two are
  allocated together everywhere in the source, so one counter names both.\<close>

definition newAudio :: "engine \<Rightarrow> nat \<times> engine" where
  "newAudio s =
     (nextId s,
      s\<lparr>elems := (elems s)(nextId s :=
            \<lparr>src = nextId s, paused = True, currentTime = 0, playbackRate = 1,
             el_volume = 1, el_loop = False\<rparr>),
        nextId := Suc (nextId s)\<rparr>)"

section \<open>Forced cleanup and the periodic sweep\<close>

text \<open>The three \<^verbatim>\<open>forEach\<close> passes of \<^verbatim>\<open>forceCleanupAllAudio\<close>. Inside the pass over
  \<^verbatim>\<open>Object.entries(audioInstancesRefs.current)\<close> the assignment
  \<^verbatim>\<open>audioInstancesRefs.current[id] = []\<close> writes a key that exists, so it replaces the
  value in place: the pass leaves every entry with the empty list. The same holds for the
  node sets, whose \<^verbatim>\<open>disconnect()\<close> calls act on the Web Audio graph only.\<close>

definition stopCached :: "cachedAudio \<Rightarrow> engine \<Rightarrow> engine" where
  "stopCached c s = revokeObjectURL (url c) (rewind (audio c) (pause (audio c) s))"

definition stopAudio :: "nat \<Rightarrow> engine \<Rightarrow> engine" where
  "stopAudio a s = revokeObjectURL (src (elems s a)) (rewind a (pause a s))"

definition emptied :: "('k \<times> 'v list) list \<Rightarrow> ('k \<times> 'v list) list" where
  "emptied al = map (\<lambda>(k, _). (k, [])) al"

definition forceCleanupAllAudio :: "engine \<Rightarrow> engine" where
  "forceCleanupAllAudio s =
     (let s1 = fold (\<lambda>(_, c). stopCached c) (cachedAudioRef s) s;
          s2 = s1\<lparr>cachedAudioRef := []\<rparr>;
          s3 = fold (\<lambda>(_, instances). fold stopAudio instances) (audioInstancesRefs s2) s2;
          s4 = s3\<lparr>audioInstancesRefs := emptied (audioInstancesRefs s3)\<rparr>;
          s5 = s4\<lparr>audioNodesRef := emptied (audioNodesRef s4)\<rparr>;
          s6 = s5\<lparr>isPlaying := Map.empty\<rparr>
      in s6\<lparr>resourceCountRef := \<lparr>audioElements = 0, audioNodes = 0, objectUrls = 0\<rparr>\<rparr>)"

definition performPeriodicCleanup :: "engine \<Rightarrow> engine" where
  "performPeriodicCleanup s =
     (let totalAudioElements = int (sum_list (map (\<lambda>(_, instances). length instances) (audioInstancesRefs s)));
          totalAudioNodes = int (sum_list (map (\<lambda>(_, nodes). length nodes) (audioNodesRef s)));
          s1 = s\<lparr>resourceCountRef :=
                 \<lparr>audioElements = totalAudioElements, audioNodes = totalAudioNodes,
                  objectUrls = objectUrls (resourceCountRef s)\<rparr>\<rparr>;
          s2 = (if totalAudioElements > 50 \<or> totalAudioNodes > 50 then forceCleanupAllAudio s1 else s1)
      in if audioContextRef s2 = Some Closed then s2\<lparr>audioContextRef := None\<rparr> else s2)"

section \<open>The slot store\<close>

definition dropCached :: "string \<Rightarrow> engine \<Rightarrow> engine" where
  "dropCached i s =
     (case map_of (cachedAudioRef s) i of
        None \<Rightarrow> s
      | Some c \<Rightarrow>
          (let s1 = revokeObjectURL (url c) (pause (audio c) s)
           in s1\<lparr>cachedAudioRef := AList.delete i (cachedAudioRef s1)\<rparr>))"

definition mergeAudioData :: "string \<Rightarrow> AudioDataPartial \<Rightarrow> AudioData option \<Rightarrow> AudioData" where
  "mergeAudioData i data prev =
     \<lparr>pad_id = i,
      name = str_or (name_p data) (str_or (map_option name prev) (padName i)),
      audioBlob = (case audioBlob_p data of Some b \<Rightarrow> Some b
                   | None \<Rightarrow> (case prev of None \<Rightarrow> None | Some p \<Rightarrow> audioBlob p)),
      speed = (case speed_p data of Some v \<Rightarrow> v | None \<Rightarrow> num_or (map_option speed prev) 1),
      balance = (case balance_p data of Some v \<Rightarrow> v | None \<Rightarrow> num_or (map_option balance prev) 0),
      echoDelay = (case echoDelay_p data of Some v \<Rightarrow> Some v
                   | None \<Rightarrow> (case prev of None \<Rightarrow> Some 0.1
                              | Some p \<Rightarrow> (case echoDelay p of Some v \<Rightarrow> Some v | None \<Rightarrow> Some 0.1))),
      echoFeedback = (case echoFeedback_p data of Some v \<Rightarrow> Some v
                      | None \<Rightarrow> Some (num_or (case prev of None \<Rightarrow> None | Some p \<Rightarrow> echoFeedback p) 0)),
      volume = (case volume_p data of Some v \<Rightarrow> Some v
                | None \<Rightarrow> Some (num_or (case prev of None \<Rightarrow> None | Some p \<Rightarrow> volume p) 0.75)),
      color = (case color_p data of Some v \<Rightarrow> Some v
               | None \<Rightarrow> (case prev of None \<Rightarrow> None | Some p \<Rightarrow> color p)),
      loop = (case loop_p data of Some v \<Rightarrow> Some v
              | None \<Rightarrow> (case prev of None \<Rightarrow> None | Some p \<Rightarrow> loop p))\<rparr>"

definition updateAudioData :: "string \<Rightarrow> AudioDataPartial \<Rightarrow> engine \<Rightarrow> engine" where
  "updateAudioData i data s =
     (let s1 = dropCached i s
      in s1\<lparr>audioData := (audioData s1)(i \<mapsto> mergeAudioData i data (audioData s1 i))\<rparr>)"

text \<open>\<^verbatim>\<open>handleDelete\<close> of \<^verbatim>\<open>src/components/audio-edit-modal.tsx\<close>: the literal it passes,
  with \<^verbatim>\<open>audioBlob: undefined\<close>.\<close>

definition deletePartial :: "string \<Rightarrow> AudioDataPartial" where
  "deletePartial padId =
     \<lparr>name_p = Some (padName padId), audioBlob_p = None, speed_p = Some 1, balance_p = Some 0,
      echoDelay_p = Some 0, echoFeedback_p = Some 0, volume_p = Some 1,
      color_p = Some ''slate'', loop_p = Some False\<rparr>"

definition handleDelete :: "string \<Rightarrow> engine \<Rightarrow> engine" where
  "handleDelete padId s = updateAudioData padId (deletePartial padId) s"

section \<open>Playback\<close>

definition cleanupAudioNodes :: "string \<Rightarrow> nat \<Rightarrow> engine \<Rightarrow> engine" where
  "cleanupAudioNodes i a s =
     (case map_of (audioNodesRef s) i of
        None \<Rightarrow> s
      | Some nodes \<Rightarrow>
          (case findIndex (\<lambda>ns. mediaElement ns = a) nodes of
             None \<Rightarrow> s
           | Some nodeIndex \<Rightarrow>
               decAudioNodes
                 (s\<lparr>audioNodesRef := AList.update i (splice1 nodeIndex nodes) (audioNodesRef s)\<rparr>)))"

text \<open>The body of the \<^verbatim>\<open>forEach\<close> over the evicted instances.\<close>

definition evict :: "string \<Rightarrow> nat \<Rightarrow> engine \<Rightarrow> engine" where
  "evict i a s =
     decAudioElements
       (decObjectUrls (revokeObjectURL (src (elems s a)) (cleanupAudioNodes i a (pause a s))))"

definition limitAudioInstances :: "string \<Rightarrow> nat \<Rightarrow> engine \<Rightarrow> engine" where
  "limitAudioInstances i maxInstances s =
     (case map_of (audioInstancesRefs s) i of
        None \<Rightarrow> s
      | Some instances \<Rightarrow>
          if length instances \<ge> maxInstances then
            (let n = length instances - maxInstances + 1;
                 instancesToRemove = take n instances;
                 s1 = s\<lparr>audioInstancesRefs := AList.update i (drop n instances) (audioInstancesRefs s)\<rparr>
             in fold (evict i) instancesToRemove s1)
          else s)"

text \<open>\<^verbatim>\<open>if (!ref[id]) ref[id] = []; ref[id].push(x)\<close>.\<close>

definition push :: "string \<Rightarrow> 'a \<Rightarrow> (string \<times> 'a list) list \<Rightarrow> (string \<times> 'a list) list" where
  "push i x al = AList.update i ((case map_of al i of None \<Rightarrow> [] | Some xs \<Rightarrow> xs) @ [x]) al"

definition needsWebAudio :: "AudioData \<Rightarrow> bool" where
  "needsWebAudio data \<longleftrightarrow>
     balance data \<noteq> 0 \<or> num_or (volume data) 1 > 1 \<or>
     (num_or (echoDelay data) 0 > 0 \<and> num_or (echoFeedback data) 0 > 0)"

definition hasEcho :: "AudioData \<Rightarrow> bool" where
  "hasEcho data \<longleftrightarrow>
     \<not> truthy (loop data) \<and> num_or (echoDelay data) 0 > 0 \<and> num_or (echoFeedback data) 0 > 0"

definition echoCount :: "AudioData \<Rightarrow> int" where
  "echoCount data = min (\<lfloor>num_or (echoFeedback data) 0 * 6\<rfloor> + 3) 6"

definition delayMs :: "AudioData \<Rightarrow> real" where
  "delayMs data = max (num_or (echoDelay data) 0 * 1000) 100"

definition echoVolume :: "AudioData \<Rightarrow> nat \<Rightarrow> real" where
  "echoVolume data i =
     (if i = 0 then num_or (volume data) 1
      else (num_or (volume data) 1 * 0.6) * num_or (echoFeedback data) 0.5 ^ (i - 1))"

text \<open>One round of the echo loop, for index \<open>i\<close>.\<close>

definition echoStep :: "play_env \<Rightarrow> string \<Rightarrow> AudioData \<Rightarrow> nat \<Rightarrow> engine \<Rightarrow> engine" where
  "echoStep env i data k s =
     (let (echoAudio, s1) = newAudio s;
          s2 = incObjectUrls s1;
          delay = real k * delayMs data;
          vol = echoVolume data k;
          s3 = s2\<lparr>elems := (elems s2)(echoAudio :=
                 (elems s2 echoAudio)\<lparr>playbackRate := speed data, el_volume := min vol 1\<rparr>)\<rparr>;
          s4 = (if audioContextRef s3 = Some Running \<and> \<not> graphThrows env k then
                  incAudioNodes
                    (s3\<lparr>audioNodesRef :=
                         push i \<lparr>mediaElement = echoAudio, pan = balance data,
                                 gain = (if vol > 1 then vol else 1)\<rparr> (audioNodesRef s3)\<rparr>)
                else s3);
          s5 = incAudioElements (s4\<lparr>audioInstancesRefs := push i echoAudio (audioInstancesRefs s4)\<rparr>)
      in s5\<lparr>timers := timers s5 @ [(echoAudio, delay)]\<rparr>)"

definition echoPath :: "play_env \<Rightarrow> string \<Rightarrow> AudioData \<Rightarrow> engine \<Rightarrow> engine" where
  "echoPath env i data s =
     (let s1 = fold (echoStep env i data) (map nat [0..echoCount data]) s
      in s1\<lparr>isPlaying := (isPlaying s1)(i \<mapsto> True)\<rparr>)"

definition unpause :: "nat \<Rightarrow> engine \<Rightarrow> engine" where
  "unpause a s = s\<lparr>elems := (elems s)(a := (elems s a)\<lparr>paused := False\<rparr>)\<rparr>"

text \<open>\<^verbatim>\<open>await audio.play()\<close> with its one retry after resuming a suspended context.\<close>

definition startPlayback :: "play_env \<Rightarrow> nat \<Rightarrow> engine \<Rightarrow> engine" where
  "startPlayback env a s =
     (if \<not> playRejects env then unpause a s
      else if audioContextRef s = Some Suspended then
        (if retryResumeRejects env then s
         else (let s1 = s\<lparr>audioContextRef := Some Running\<rparr>
               in if retryPlayRejects env then s1 else unpause a s1))
      else s)"

definition cachedPath :: "play_env \<Rightarrow> string \<Rightarrow> AudioData \<Rightarrow> engine \<Rightarrow> engine" where
  "cachedPath env i data s =
     (let (a, isNewAudio, s1) =
            (case map_of (cachedAudioRef s) i of
               Some c \<Rightarrow> (audio c, False, rewind (audio c) s)
             | None \<Rightarrow>
                 (let (a, s') = newAudio s
                  in (a, True,
                      incObjectUrls
                        (s'\<lparr>cachedAudioRef :=
                             AList.update i \<lparr>audio = a, url = a\<rparr> (cachedAudioRef s')\<rparr>))));
          s2 = s1\<lparr>elems := (elems s1)(a :=
                 (elems s1 a)\<lparr>playbackRate := speed data,
                                el_volume := min (num_or (volume data) 1) 1,
                                el_loop := truthy (loop data)\<rparr>)\<rparr>;
          s3 = (if needsWebAudio data \<and> audioContextRef s2 \<noteq> None \<and> isNewAudio \<and>
                   audioContextRef s2 = Some Running \<and> \<not> graphThrows env 0 then
                  incAudioNodes
                    (s2\<lparr>audioNodesRef :=
                         push i \<lparr>mediaElement = a, pan = balance data,
                                 gain = (if num_or (volume data) 1 > 1 then num_or (volume data) 1 else 1)\<rparr>
                           (audioNodesRef s2)\<rparr>)
                else s2);
          s4 = s3\<lparr>audioInstancesRefs := push i a (audioInstancesRefs s3)\<rparr>;
          s5 = (if isNewAudio then incAudioElements s4 else s4);
          s6 = s5\<lparr>isPlaying := (isPlaying s5)(i \<mapsto> True)\<rparr>
      in startPlayback env a s6)"

text \<open>The stop branch: loop enabled and the slot already playing.\<close>

definition stopLoop :: "string \<Rightarrow> engine \<Rightarrow> engine" where
  "stopLoop i s =
     (let s1 = (case map_of (cachedAudioRef s) i of
                  None \<Rightarrow> s
                | Some c \<Rightarrow> rewind (audio c) (pause (audio c) s))
      in s1\<lparr>isPlaying := (isPlaying s1)(i \<mapsto> False)\<rparr>)"

text \<open>The lazy creation of the shared context (when \<^verbatim>\<open>new AudioContext()\<close> does not
  throw) and the best-effort \<^verbatim>\<open>resume()\<close> of a suspended one.\<close>

definition ensureContext :: "play_env \<Rightarrow> engine \<Rightarrow> engine" where
  "ensureContext env s1 =
     (let s2 = (if audioContextRef s1 = None
                then s1\<lparr>audioContextRef := Some (createdState env)\<rparr> else s1)
      in if audioContextRef s2 = Some Suspended \<and> \<not> resumeRejects env
         then s2\<lparr>audioContextRef := Some Running\<rparr> else s2)"

definition playAudio :: "play_env \<Rightarrow> string \<Rightarrow> engine \<Rightarrow> engine" where
  "playAudio env i s =
     (case audioData s i of
        None \<Rightarrow> s
      | Some data \<Rightarrow>
          if audioBlob data = None then s
          else if truthy (loop data) \<and> truthy (isPlaying s i) then stopLoop i s
          else
            (let s1 = limitAudioInstances i 8 s
             in if audioContextRef s1 = None \<and> createThrows env then s1
                else
                  (let s3 = ensureContext env s1
                   in if hasEcho data then echoPath env i data s3
                      else cachedPath env i data s3)))"

text \<open>The two \<^verbatim>\<open>onended\<close> handlers, for slot \<open>i\<close> and element \<open>a\<close>.\<close>

definition echoEnded :: "string \<Rightarrow> nat \<Rightarrow> engine \<Rightarrow> engine" where
  "echoEnded i a s =
     (let s1 = cleanupAudioNodes i a s;
          s2 = (case map_of (audioInstancesRefs s1) i of
                  None \<Rightarrow> s1
                | Some instances \<Rightarrow>
                    (let (rest, s') =
                           (case indexOf instances a of
                              None \<Rightarrow> (instances, s1)
                            | Some index \<Rightarrow>
                                (splice1 index instances,
                                 decAudioElements
                                   (s1\<lparr>audioInstancesRefs :=
                                        AList.update i (splice1 index instances) (audioInstancesRefs s1)\<rparr>)))
                     in if rest = [] then s'\<lparr>isPlaying := (isPlaying s')(i \<mapsto> False)\<rparr> else s'))
      in decObjectUrls (revokeObjectURL (src (elems s2 a)) s2))"

definition cachedEnded :: "string \<Rightarrow> nat \<Rightarrow> engine \<Rightarrow> engine" where
  "cachedEnded i a s =
     (let s1 = (case map_of (audioInstancesRefs s) i of
                  None \<Rightarrow> s
                | Some instances \<Rightarrow>
                    (let (rest, s') =
                           (case indexOf instances a of
                              None \<Rightarrow> (instances, s)
                            | Some index \<Rightarrow>
                                (splice1 index instances,
                                 s\<lparr>audioInstancesRefs :=
                                     AList.update i (splice1 index instances) (audioInstancesRefs s)\<rparr>))
                     in if rest = [] then s'\<lparr>isPlaying := (isPlaying s')(i \<mapsto> False)\<rparr> else s'));
          s2 = decObjectUrls (revokeObjectURL (src (elems s1 a)) s1)
      in cleanupAudioNodes i a s2)"

section \<open>The audio codec\<close>

text \<open>
  \<^verbatim>\<open>trimSilence\<close> and \<^verbatim>\<open>bufferToWav\<close> of
  \<^verbatim>\<open>src/components/audio-edit-modal.tsx\<close>. An \<^verbatim>\<open>AudioBuffer\<close> carries its
  \<^verbatim>\<open>length\<close> (frames per channel), its \<^verbatim>\<open>sampleRate\<close> (a whole number of Hz) and one
  sample list per channel; \<^verbatim>\<open>numberOfChannels\<close> is the number of lists. The Web Audio
  API only hands out buffers that are well formed: at least one channel, every channel
  with \<^verbatim>\<open>length\<close> samples.
\<close>

record AudioBuffer =
  buf_length :: nat
  sampleRate :: nat
  channelData :: "real list list"

definition numberOfChannels :: "AudioBuffer \<Rightarrow> nat" where
  "numberOfChannels b = length (channelData b)"

definition wfBuffer :: "AudioBuffer \<Rightarrow> bool" where
  "wfBuffer b \<longleftrightarrow> channelData b \<noteq> [] \<and> list_all (\<lambda>d. length d = buf_length b) (channelData b)"

text \<open>\<^verbatim>\<open>buffer.getChannelData(channel)[i]\<close>: reading a typed array past its end gives
  \<^verbatim>\<open>undefined\<close>, here \<^const>\<open>None\<close>.\<close>

definition getSample :: "AudioBuffer \<Rightarrow> nat \<Rightarrow> nat \<Rightarrow> real option" where
  "getSample b channel i =
     (let d = channelData b ! channel in if i < length d then Some (d ! i) else None)"

subsection \<open>The DataView\<close>

text \<open>The \<^verbatim>\<open>ArrayBuffer\<close> under the view is a list of bytes. The setters reduce their
  argument modulo the field width and store it little-endian (the calls all pass
  \<^verbatim>\<open>true\<close>). Every write of \<^verbatim>\<open>bufferToWav\<close> lies inside the buffer it allocated, so
  the \<^verbatim>\<open>RangeError\<close> of a write past the end does not arise.\<close>

definition setUint8 :: "nat list \<Rightarrow> nat \<Rightarrow> nat \<Rightarrow> nat list" where
  "setUint8 view off v = view[off := v mod 256]"

definition setUint16 :: "nat list \<Rightarrow> nat \<Rightarrow> nat \<Rightarrow> nat list" where
  "setUint16 view off v =
     (let w = v mod 65536 in view[off := w mod 256, off + 1 := w div 256])"

definition setUint32 :: "nat list \<Rightarrow> nat \<Rightarrow> nat \<Rightarrow> nat list" where
  "setUint32 view off v =
     (let w = v mod 4294967296
      in view[off := w mod 256, off + 1 := w div 256 mod 256,
              off + 2 := w div 65536 mod 256, off + 3 := w div 16777216])"

text \<open>The conversion of a number to a 16-bit integer: truncate towards zero, then reduce
  modulo \<open>2 ^ 16\<close>.\<close>

definition js_trunc :: "real \<Rightarrow> int" where
  "js_trunc x = (if 0 \<le> x then \<lfloor>x\<rfloor> else \<lceil>x\<rceil>)"

definition setInt16 :: "nat list \<Rightarrow> nat \<Rightarrow> real \<Rightarrow> nat list" where
  "setInt16 view off x = setUint16 view off (nat (js_trunc x mod 65536))"

text \<open>The matching getters, used to read the header back.\<close>

definition getUint16 :: "nat list \<Rightarrow> nat \<Rightarrow> nat" where
  "getUint16 view off = view ! off + 256 * view ! (off + 1)"

definition getUint32 :: "nat list \<Rightarrow> nat \<Rightarrow> nat" where
  "getUint32 view off =
     view ! off + 256 * view ! (off + 1) + 65536 * view ! (off + 2) + 16777216 * view ! (off + 3)"

definition getInt16 :: "nat list \<Rightarrow> nat \<Rightarrow> int" where
  "getInt16 view off =
     (let w = getUint16 view off in if w < 32768 then int w else int w - 65536)"

subsection \<open>The PCM encoder\<close>

definition writeString :: "nat list \<Rightarrow> nat \<Rightarrow> string \<Rightarrow> nat list" where
  "writeString view offset str =
     fold (\<lambda>i v. setUint8 v (offset + i) (of_char (str ! i))) [0..<length str] view"

definition writeHeader :: "AudioBuffer \<Rightarrow> nat list \<Rightarrow> nat list" where
  "writeHeader b view0 =
     (let len = buf_length b; nch = numberOfChannels b; rate = sampleRate b;
          v1 = writeString view0 0 ''RIFF'';
          v2 = setUint32 v1 4 (36 + len * nch * 2);
          v3 = writeString v2 8 ''WAVE'';
          v4 = writeString v3 12 ''fmt '';
          v5 = setUint32 v4 16 16;
          v6 = setUint16 v5 20 1;
          v7 = setUint16 v6 22 nch;
          v8 = setUint32 v7 24 rate;
          v9 = setUint32 v8 28 (rate * nch * 2);
          v10 = setUint16 v9 32 (nch * 2);
          v11 = setUint16 v10 34 16;
          v12 = writeString v11 36 ''data''
      in setUint32 v12 40 (len * nch * 2))"

text \<open>\<^verbatim>\<open>Math.max(-1, Math.min(1, x)) * 0x7fff\<close>; an \<^verbatim>\<open>undefined\<close> sample makes the
  product NaN, which \<^verbatim>\<open>setInt16\<close> stores as 0.\<close>

definition pcmValue :: "real option \<Rightarrow> real" where
  "pcmValue x = (case x of None \<Rightarrow> 0 | Some v \<Rightarrow> max (- 1) (min 1 v) * 32767)"

definition writeSample :: "AudioBuffer \<Rightarrow> nat \<Rightarrow> nat \<Rightarrow> nat list \<times> nat \<Rightarrow> nat list \<times> nat" where
  "writeSample b i channel = (\<lambda>(view, offset).
     (setInt16 view offset (pcmValue (getSample b channel i)), offset + 2))"

definition writeSamples :: "AudioBuffer \<Rightarrow> nat list \<Rightarrow> nat list" where
  "writeSamples b view =
     fst (fold (\<lambda>i. fold (writeSample b i) [0..<numberOfChannels b]) [0..<buf_length b] (view, 44))"

definition bufferToWav :: "AudioBuffer \<Rightarrow> blob" where
  "bufferToWav b =
     writeSamples b
       (writeHeader b (replicate (44 + buf_length b * numberOfChannels b * 2) 0))"

text \<open>What the encoder produces, read off the loops: the two bytes \<^verbatim>\<open>setInt16\<close> stores
  for a value, and the samples in the order the nested loops visit them (frame by frame,
  channel by channel).\<close>

definition int16Bytes :: "real \<Rightarrow> nat list" where
  "int16Bytes x = (let w = nat (js_trunc x mod 65536) mod 65536 in [w mod 256, w div 256])"

definition interleaved :: "AudioBuffer \<Rightarrow> real list" where
  "interleaved b =
     concat (map (\<lambda>i. map (\<lambda>channel. pcmValue (getSample b channel i)) [0..<numberOfChannels b])
               [0..<buf_length b])"

text \<open>A two-channel, two-frame buffer with samples outside \<open>[-1, 1]\<close>.\<close>

definition smallBuffer :: AudioBuffer where
  "smallBuffer = \<lparr>buf_length = 2, sampleRate = 8000, channelData = [[1/2, - 2], [3, 0]]\<rparr>"

subsection \<open>Trimming leading silence\<close>

text \<open>The scan for the first sample above the threshold: \<open>findStart xs i\<close> runs the loop
  on the samples from index \<open>i\<close> on and returns the value \<^verbatim>\<open>startSample\<close> has at the end,
  which stays 0 when the loop never breaks.\<close>

fun findStart :: "real list \<Rightarrow> nat \<Rightarrow> nat" where
  "findStart [] i = 0"
| "findStart (x # xs) i = (if \<bar>x\<bar> > 0.005 then i else findStart xs (Suc i))"

text \<open>The detected or forced trim point of a buffer whose channel 0 is \<open>channelData0\<close>.\<close>

definition startSampleOf :: "nat \<Rightarrow> real list \<Rightarrow> nat" where
  "startSampleOf rate channelData0 =
     (let startSample = findStart channelData0 0
      in if startSample = 0 \<and> real (length channelData0) > real rate * 0.1
         then nat \<lfloor>real rate * 0.1\<rfloor> else startSample)"

text \<open>\<^verbatim>\<open>createBuffer\<close> followed by the copy loops. A read past the end of a channel
  cannot happen in a well-formed buffer; it would store NaN, which the model has not, and
  is written 0 here.\<close>

definition trimmedBuffer :: "AudioBuffer \<Rightarrow> nat \<Rightarrow> nat \<Rightarrow> AudioBuffer" where
  "trimmedBuffer b startSample trimmedLength =
     \<lparr>buf_length = trimmedLength, sampleRate = sampleRate b,
      channelData =
        map (\<lambda>originalData.
               map (\<lambda>i. if i + startSample < length originalData
                        then originalData ! (i + startSample) else 0) [0..<trimmedLength])
            (channelData b)\<rparr>"

text \<open>\<^verbatim>\<open>trimSilence\<close> maps a Blob to a Blob. \<^verbatim>\<open>decodeAudioData\<close> belongs to the
  browser and is a parameter; a rejected decode, like any other exception, resolves to
  the original Blob (\<open>recorded\<close>, the \<^verbatim>\<open>audioBlob\<close> argument of the source).\<close>

definition trimSilence :: "(blob \<Rightarrow> AudioBuffer option) \<Rightarrow> blob \<Rightarrow> blob" where
  "trimSilence decodeAudioData recorded =
     (case decodeAudioData recorded of
        None \<Rightarrow> recorded
      | Some audioBuffer \<Rightarrow>
          (case channelData audioBuffer of
             [] \<Rightarrow> recorded
           | channelData0 # _ \<Rightarrow>
               (let startSample = startSampleOf (sampleRate audioBuffer) channelData0
                in if real startSample < real (sampleRate audioBuffer) * 0.05 then recorded
                   else bufferToWav
                          (trimmedBuffer audioBuffer startSample
                             (length channelData0 - startSample)))))"

text \<open>The condition under which \<^verbatim>\<open>trimSilence\<close> resolves to its input: the detected
  or forced trim point lies under 50 ms.\<close>

definition trimPointBelow50ms :: "AudioBuffer \<Rightarrow> bool" where
  "trimPointBelow50ms b =
     (case channelData b of
        [] \<Rightarrow> True
      | channelData0 # _ \<Rightarrow> real (startSampleOf (sampleRate b) channelData0) < real (sampleRate b) * 0.05)"

subsection \<open>Concrete recordings\<close>

definition exampleClip :: blob where
  "exampleClip = [26, 69, 223, 163]"

text \<open>A mono buffer at 8 kHz holding \<open>n\<close> frames of the constant sample \<open>x\<close>, and one
  holding 50 ms of silence followed by 50 ms of the sample 0.5.\<close>

definition tone :: "nat \<Rightarrow> real \<Rightarrow> AudioBuffer" where
  "tone n x = \<lparr>buf_length = n, sampleRate = 8000, channelData = [replicate n x]\<rparr>"

definition quietThenTone :: AudioBuffer where
  "quietThenTone =
     \<lparr>buf_length = 800, sampleRate = 8000, channelData = [replicate 400 0 @ replicate 400 (1/2)]\<rparr>"

definition quietClip :: blob where
  "quietClip = [26, 69, 223, 163, 1]"

text \<open>A decoder given by its values on four Blobs: two recordings, and the two WAV files
  that \<^verbatim>\<open>trimSilence\<close> makes of them, which decode to what a 16-bit PCM decoder returns
  for the stored sample 16383 (the sample 0.5 after \<^verbatim>\<open>bufferToWav\<close>), at the same rate and
  length.\<close>

definition exampleDecode :: "blob \<Rightarrow> AudioBuffer option" where
  "exampleDecode recorded =
     (if recorded = exampleClip then Some (tone 2400 (1/2))
      else if recorded = quietClip then Some quietThenTone
      else if recorded = bufferToWav (tone 1600 (1/2)) then Some (tone 1600 (16383/32768))
      else if recorded = bufferToWav (tone 400 (1/2)) then Some (tone 400 (16383/32768))
      else None)"

section \<open>Import of an archive\<close>

text \<open>
  \<^verbatim>\<open>importData\<close> reads a \<^verbatim>\<open>File\<close> through JSZip and \<^verbatim>\<open>JSON.parse\<close>. The two
  libraries are not modelled: a file carries what they return for it, namely whether
  \<^verbatim>\<open>JSZip.loadAsync\<close> accepts it, whether the archive has a \<^verbatim>\<open>settings.json\<close> entry,
  and the value its text parses to (or that it does not parse). A parsed object is the
  list of its members. The function returns the error it throws, if any, together with the
  state it leaves.
\<close>

datatype json = JNull | JBool bool | JNum real | JStr string | JArr "json list" | JObj "(string \<times> json) list"

record zipArchive =
  settingsEntry :: "json option option"
  files :: "(string \<times> blob) list"

record importFile =
  fileName :: string
  zipContent :: "zipArchive option"

datatype import_error = Error string | ZipLoadError | SyntaxError

definition endsWith :: "string \<Rightarrow> string \<Rightarrow> bool" where
  "endsWith s suffix \<longleftrightarrow> length suffix \<le> length s \<and> drop (length s - length suffix) s = suffix"

definition jsTruthy :: "json \<Rightarrow> bool" where
  "jsTruthy j = (case j of JNull \<Rightarrow> False | JBool b \<Rightarrow> b | JNum x \<Rightarrow> x \<noteq> 0
                 | JStr s \<Rightarrow> s \<noteq> [] | JArr _ \<Rightarrow> True | JObj _ \<Rightarrow> True)"

text \<open>\<^verbatim>\<open>typeof j === "object"\<close>, which holds of \<^verbatim>\<open>null\<close>, arrays and objects.\<close>

definition typeofObject :: "json \<Rightarrow> bool" where
  "typeofObject j = (case j of JNull \<Rightarrow> True | JArr _ \<Rightarrow> True | JObj _ \<Rightarrow> True | _ \<Rightarrow> False)"

text \<open>\<^verbatim>\<open>j.key\<close> for one of the member names the code reads; only an object has them.\<close>

definition jsMember :: "json \<Rightarrow> string \<Rightarrow> json option" where
  "jsMember j key = (case j of JObj members \<Rightarrow> map_of members key | _ \<Rightarrow> None)"

text \<open>\<^verbatim>\<open>settings[id]\<close> where \<open>id\<close> is the decimal string of \<open>i\<close>: a member of an object,
  an element of an array.\<close>

definition padSettingsOf :: "json \<Rightarrow> nat \<Rightarrow> json option" where
  "padSettingsOf settings i =
     (case settings of
        JObj members \<Rightarrow> map_of members (toString i)
      | JArr xs \<Rightarrow> if i < length xs then Some (xs ! i) else None
      | _ \<Rightarrow> None)"

text \<open>The source stores a member of any JSON type in the field (the declared types are
  not checked at run time). The record is typed, so a member of another type than the
  field's is read as absent here.\<close>

definition asNum :: "json option \<Rightarrow> real option" where
  "asNum j = (case j of Some (JNum x) \<Rightarrow> Some x | _ \<Rightarrow> None)"

definition asStr :: "json option \<Rightarrow> string option" where
  "asStr j = (case j of Some (JStr s) \<Rightarrow> Some s | _ \<Rightarrow> None)"

definition asBool :: "json option \<Rightarrow> bool option" where
  "asBool j = (case j of Some (JBool b) \<Rightarrow> Some b | _ \<Rightarrow> None)"

definition defaultPad :: "string \<Rightarrow> AudioData" where
  "defaultPad i =
     \<lparr>pad_id = i, name = padName i, audioBlob = None, speed = 1, balance = 0,
      echoDelay = Some 0.1, echoFeedback = Some 0, volume = Some 0.75, color = None,
      loop = None\<rparr>"

text \<open>One round of the loop over the 36 pads.\<close>

definition importPad :: "json \<Rightarrow> zipArchive \<Rightarrow> nat \<Rightarrow> AudioData" where
  "importPad settings archive i =
     (let ident = toString i in
      case padSettingsOf settings i of
        None \<Rightarrow> defaultPad ident
      | Some padSettings \<Rightarrow>
          if \<not> jsTruthy padSettings then defaultPad ident
          else
            \<lparr>pad_id = ident,
             name = str_or (asStr (jsMember padSettings ''name'')) (padName ident),
             audioBlob =
               (case jsMember padSettings ''hasAudio'' of
                  None \<Rightarrow> None
                | Some h \<Rightarrow> if jsTruthy h then map_of (files archive) (''pad-'' @ ident @ ''.webm'') else None),
             speed = num_or (asNum (jsMember padSettings ''speed'')) 1,
             balance = num_or (asNum (jsMember padSettings ''balance'')) 0,
             echoDelay = (case jsMember padSettings ''echoDelay'' of
                            None \<Rightarrow> Some 0.1 | Some v \<Rightarrow> asNum (Some v)),
             echoFeedback = Some (num_or (asNum (jsMember padSettings ''echoFeedback'')) 0),
             volume = (case jsMember padSettings ''volume'' of
                         None \<Rightarrow> Some 0.75 | Some v \<Rightarrow> asNum (Some v)),
             color = asStr (jsMember padSettings ''color''),
             loop = asBool (jsMember padSettings ''loop'')\<rparr>)"

definition importData :: "importFile \<Rightarrow> engine \<Rightarrow> import_error option \<times> engine" where
  "importData file s =
     (if \<not> endsWith (fileName file) ''.zip''
      then (Some (Error ''Invalid file type. Please select a .zip file.''), s)
      else
        case zipContent file of
          None \<Rightarrow> (Some ZipLoadError, s)
        | Some archive \<Rightarrow>
            (case settingsEntry archive of
               None \<Rightarrow> (Some (Error ''Invalid export file: settings.json not found''), s)
             | Some None \<Rightarrow> (Some SyntaxError, s)
             | Some (Some settings) \<Rightarrow>
                 if \<not> jsTruthy settings \<or> \<not> typeofObject settings
                 then (Some (Error ''Invalid settings.json format''), s)
                 else
                   (let s1 = (case jsMember settings ''_buttonOrder'' of
                                Some (JArr order) \<Rightarrow>
                                  s\<lparr>buttonOrder := map (\<lambda>j. case j of JStr x \<Rightarrow> x | _ \<Rightarrow> []) order\<rparr>
                              | _ \<Rightarrow> s);
                        newAudioData =
                          fold (\<lambda>i m. m(toString i \<mapsto> importPad settings archive i)) [1..<37] Map.empty;
                        s2 = fold (\<lambda>(_, c). stopCached c) (cachedAudioRef s1) s1;
                        s3 = s2\<lparr>cachedAudioRef := []\<rparr>
                    in (None, s3\<lparr>audioData := newAudioData\<rparr>))))"

text \<open>An archive whose \<^verbatim>\<open>settings.json\<close> is the empty JSON array.\<close>

definition arrayFile :: importFile where
  "arrayFile =
     \<lparr>fileName = ''pads.zip'',
      zipContent = Some \<lparr>settingsEntry = Some (Some (JArr [])), files = []\<rparr>\<rparr>"

section \<open>The engine as a transition system\<close>

definition initialElement :: HTMLAudioElement where
  "initialElement =
     \<lparr>src = 0, paused = True, currentTime = 0, playbackRate = 1, el_volume = 1, el_loop = False\<rparr>"

text \<open>The state at mount: the \<^verbatim>\<open>useState\<close> and \<^verbatim>\<open>useRef\<close> initialisers.\<close>

definition initialEngine :: engine where
  "initialEngine =
     \<lparr>audioData = Map.empty, isPlaying = Map.empty,
      buttonOrder = map (\<lambda>k. toString (Suc k)) [0..<36],
      audioInstancesRefs = [], audioContextRef = None, audioNodesRef = [],
      resourceCountRef = \<lparr>audioElements = 0, audioNodes = 0, objectUrls = 0\<rparr>,
      cachedAudioRef = [], elems = (\<lambda>_. initialElement), revokedUrls = {}, timers = [],
      nextId = 0\<rparr>"

datatype operation =
    PlayAudio play_env string
  | EchoEnded string nat
  | CachedEnded string nat
  | PeriodicCleanup
  | ForceCleanup
  | UpdateAudioData string AudioDataPartial
  | ImportData importFile
  | ContextChanges "ctx_state option"

text \<open>\<open>ContextChanges\<close> is the browser moving the shared context to another state on its
  own (autoplay policy, \<^verbatim>\<open>close()\<close> at unmount); \<open>ImportData\<close> leaves the state
  \<^verbatim>\<open>importData\<close> leaves, whether it throws or not.\<close>

fun step :: "operation \<Rightarrow> engine \<Rightarrow> engine" where
  "step (PlayAudio env i) s = playAudio env i s"
| "step (EchoEnded i a) s = echoEnded i a s"
| "step (CachedEnded i a) s = cachedEnded i a s"
| "step PeriodicCleanup s = performPeriodicCleanup s"
| "step ForceCleanup s = forceCleanupAllAudio s"
| "step (UpdateAudioData i data) s = updateAudioData i data s"
| "step (ImportData file) s = snd (importData file s)"
| "step (ContextChanges c) s = s\<lparr>audioContextRef := c\<rparr>"

definition run :: "operation list \<Rightarrow> engine \<Rightarrow> engine" where
  "run ops s = fold step ops s"

section \<open>Reading the state\<close>

text \<open>\<^verbatim>\<open>audioInstancesRefs.current[id]\<close>, with a missing entry read as no instance.\<close>

definition instancesOf :: "engine \<Rightarrow> string \<Rightarrow> nat list" where
  "instancesOf s i = (case map_of (audioInstancesRefs s) i of None \<Rightarrow> [] | Some xs \<Rightarrow> xs)"

section \<open>Concrete slots and environments\<close>

text \<open>A slot with a clip, echo delay 0.2 s, gain 1, balance 0, loop off and the given
  feedback.\<close>

definition echoPad :: "real \<Rightarrow> AudioData" where
  "echoPad fb =
     \<lparr>pad_id = ''1'', name = ''Pad 1'', audioBlob = Some exampleClip, speed = 1, balance = 0,
      echoDelay = Some 0.2, echoFeedback = Some fb, volume = Some 1, color = Some ''slate'',
      loop = Some False\<rparr>"

definition loopPad :: AudioData where
  "loopPad =
     \<lparr>pad_id = ''1'', name = ''Pad 1'', audioBlob = Some exampleClip, speed = 1, balance = 0,
      echoDelay = Some 0, echoFeedback = Some 0, volume = Some 1, color = Some ''slate'',
      loop = Some True\<rparr>"

definition engineWith :: "AudioData \<Rightarrow> engine" where
  "engineWith pad = initialEngine\<lparr>audioData := [''1'' \<mapsto> pad]\<rparr>"

text \<open>A browser in which nothing fails: the context is created running and every
  \<^verbatim>\<open>play()\<close> is accepted.\<close>

definition runningEnv :: play_env where
  "runningEnv =
     \<lparr>createThrows = False, createdState = Running, resumeRejects = False,
      graphThrows = (\<lambda>_. False), playRejects = False, retryResumeRejects = False,
      retryPlayRejects = False\<rparr>"

section \<open>The ledger invariant\<close>

definition countersNonNegative :: "engine \<Rightarrow> bool" where
  "countersNonNegative s \<longleftrightarrow>
     0 \<le> audioElements (resourceCountRef s) \<and> 0 \<le> audioNodes (resourceCountRef s) \<and>
     0 \<le> objectUrls (resourceCountRef s)"

section \<open>Verified properties\<close>

subsection \<open>Forced cleanup\<close>

lemma fold_emptied_id: "fold (\<lambda>(_, instances). fold f instances) (emptied al) s = s"
  by (induction al arbitrary: s) (auto simp: emptied_def)

lemma emptied_idem: "emptied (emptied al) = emptied al"
  by (induction al) (auto simp: emptied_def)

lemma list_all_emptied: "list_all (\<lambda>(_, xs). xs = []) (emptied al)"
  by (induction al) (auto simp: emptied_def)

lemma stopAudio_frame: "\<exists>e r. stopAudio a s = s\<lparr>elems := e, revokedUrls := r\<rparr>"
  unfolding stopAudio_def revokeObjectURL_def rewind_def pause_def by (intro exI) simp

lemma stopCached_frame: "\<exists>e r. stopCached c s = s\<lparr>elems := e, revokedUrls := r\<rparr>"
  unfolding stopCached_def revokeObjectURL_def rewind_def pause_def by (intro exI) simp

lemma fold_frame:
  assumes "\<And>x s. \<exists>e r. f x s = s\<lparr>elems := e, revokedUrls := r\<rparr>"
  shows "\<exists>e r. fold f xs s = s\<lparr>elems := e, revokedUrls := r\<rparr>"
proof (induction xs arbitrary: s)
  case Nil
  have "s = s\<lparr>elems := elems s, revokedUrls := revokedUrls s\<rparr>" by simp
  then show ?case by (metis fold_simps(1))
next
  case (Cons x xs)
  obtain e r where 1: "f x s = s\<lparr>elems := e, revokedUrls := r\<rparr>"
    using assms by blast
  obtain e' r' where 2: "fold f xs (f x s) = (f x s)\<lparr>elems := e', revokedUrls := r'\<rparr>"
    using Cons.IH by blast
  show ?case unfolding fold_simps 2 unfolding 1 by (intro exI) simp
qed

lemma stopAll_frame:
  "\<exists>e r. fold (\<lambda>(_, instances). fold stopAudio instances) al s = s\<lparr>elems := e, revokedUrls := r\<rparr>"
  by (rule fold_frame) (simp add: split_beta fold_frame [OF stopAudio_frame])

lemma stopAllCached_frame:
  "\<exists>e r. fold (\<lambda>(_, c). stopCached c) cs s = s\<lparr>elems := e, revokedUrls := r\<rparr>"
  by (rule fold_frame) (simp add: split_beta stopCached_frame)

lemma forceCleanup_shape:
  "\<exists>e r. forceCleanupAllAudio s =
     s\<lparr>elems := e, revokedUrls := r, cachedAudioRef := [],
       audioInstancesRefs := emptied (audioInstancesRefs s),
       audioNodesRef := emptied (audioNodesRef s), isPlaying := Map.empty,
       resourceCountRef := \<lparr>audioElements = 0, audioNodes = 0, objectUrls = 0\<rparr>\<rparr>"
proof -
  obtain e r where 1: "fold (\<lambda>(_, c). stopCached c) (cachedAudioRef s) s = s\<lparr>elems := e, revokedUrls := r\<rparr>"
    using stopAllCached_frame by blast
  let ?s2 = "s\<lparr>elems := e, revokedUrls := r, cachedAudioRef := []\<rparr>"
  obtain e' r' where 2: "fold (\<lambda>(_, instances). fold stopAudio instances) (audioInstancesRefs s) ?s2 = ?s2\<lparr>elems := e', revokedUrls := r'\<rparr>"
    using stopAll_frame by blast
  show ?thesis
    unfolding forceCleanupAllAudio_def Let_def 1
    by (rule exI [of _ e'], rule exI [of _ r']) (simp add: 2)
qed

lemma forceCleanup_fields:
  "audioInstancesRefs (forceCleanupAllAudio s) = emptied (audioInstancesRefs s)"
  "audioNodesRef (forceCleanupAllAudio s) = emptied (audioNodesRef s)"
  "cachedAudioRef (forceCleanupAllAudio s) = []"
  "isPlaying (forceCleanupAllAudio s) = Map.empty"
  "resourceCountRef (forceCleanupAllAudio s) = \<lparr>audioElements = 0, audioNodes = 0, objectUrls = 0\<rparr>"
  "audioData (forceCleanupAllAudio s) = audioData s"
  "buttonOrder (forceCleanupAllAudio s) = buttonOrder s"
  using forceCleanup_shape [of s] by auto

lemma forceCleanup_fixed:
  assumes "cachedAudioRef s = []" "audioInstancesRefs s = emptied al" "audioNodesRef s = emptied nl"
    "isPlaying s = Map.empty" "resourceCountRef s = \<lparr>audioElements = 0, audioNodes = 0, objectUrls = 0\<rparr>"
  shows "forceCleanupAllAudio s = s"
  using assms by (simp add: forceCleanupAllAudio_def Let_def fold_emptied_id emptied_idem)

text \<open>
  Claim C6. Forced cleanup is idempotent: from any engine state, one run of
  \<^verbatim>\<open>forceCleanupAllAudio\<close> leaves every per-slot instance list and every per-slot
  node-set list empty, the cached-instance map and the playing map empty and the three
  counters at zero, and a second run in succession returns the very state the first one
  produced.
\<close>

theorem forceCleanupAllAudio_idempotent:
  "forceCleanupAllAudio (forceCleanupAllAudio s) = forceCleanupAllAudio s \<and>
   list_all (\<lambda>(_, instances). instances = []) (audioInstancesRefs (forceCleanupAllAudio s)) \<and>
   list_all (\<lambda>(_, nodes). nodes = []) (audioNodesRef (forceCleanupAllAudio s)) \<and>
   cachedAudioRef (forceCleanupAllAudio s) = [] \<and>
   isPlaying (forceCleanupAllAudio s) = Map.empty \<and>
   resourceCountRef (forceCleanupAllAudio s) = \<lparr>audioElements = 0, audioNodes = 0, objectUrls = 0\<rparr>"
  by (simp add: forceCleanup_fields list_all_emptied forceCleanup_fixed [OF forceCleanup_fields(3) forceCleanup_fields(1) forceCleanup_fields(2) forceCleanup_fields(4) forceCleanup_fields(5)])

text \<open>
  Claim C9. Forced cleanup and the periodic sweep never modify slot parameters or layout:
  after \<^verbatim>\<open>forceCleanupAllAudio\<close> or \<^verbatim>\<open>performPeriodicCleanup\<close> the
  \<^verbatim>\<open>audioData\<close> map and the \<^verbatim>\<open>buttonOrder\<close> array are what they were before.
\<close>

theorem cleanup_preserves_slot_store:
  "audioData (forceCleanupAllAudio s) = audioData s \<and>
   buttonOrder (forceCleanupAllAudio s) = buttonOrder s \<and>
   audioData (performPeriodicCleanup s) = audioData s \<and>
   buttonOrder (performPeriodicCleanup s) = buttonOrder s"
  by (simp add: forceCleanup_fields performPeriodicCleanup_def Let_def)

subsection \<open>The counters stay non-negative\<close>

lemma nonneg_frame [simp]:
  "countersNonNegative (s\<lparr>elems := e\<rparr>) = countersNonNegative s"
  "countersNonNegative (s\<lparr>revokedUrls := r\<rparr>) = countersNonNegative s"
  "countersNonNegative (s\<lparr>audioInstancesRefs := al\<rparr>) = countersNonNegative s"
  "countersNonNegative (s\<lparr>audioNodesRef := nl\<rparr>) = countersNonNegative s"
  "countersNonNegative (s\<lparr>cachedAudioRef := cl\<rparr>) = countersNonNegative s"
  "countersNonNegative (s\<lparr>isPlaying := pl\<rparr>) = countersNonNegative s"
  "countersNonNegative (s\<lparr>audioContextRef := c\<rparr>) = countersNonNegative s"
  "countersNonNegative (s\<lparr>audioData := d\<rparr>) = countersNonNegative s"
  "countersNonNegative (s\<lparr>timers := t\<rparr>) = countersNonNegative s"
  "countersNonNegative (s\<lparr>nextId := n\<rparr>) = countersNonNegative s"
  "countersNonNegative (s\<lparr>buttonOrder := b\<rparr>) = countersNonNegative s"
  by (simp_all add: countersNonNegative_def)

lemma nonneg_counters [simp]:
  "countersNonNegative s \<Longrightarrow> countersNonNegative (decAudioNodes s)"
  "countersNonNegative s \<Longrightarrow> countersNonNegative (decAudioElements s)"
  "countersNonNegative s \<Longrightarrow> countersNonNegative (decObjectUrls s)"
  "countersNonNegative s \<Longrightarrow> countersNonNegative (incAudioNodes s)"
  "countersNonNegative s \<Longrightarrow> countersNonNegative (incAudioElements s)"
  "countersNonNegative s \<Longrightarrow> countersNonNegative (incObjectUrls s)"
  by (simp_all add: countersNonNegative_def decAudioNodes_def decAudioElements_def
      decObjectUrls_def incAudioNodes_def incAudioElements_def incObjectUrls_def decr_def)

lemma nonneg_elem_ops [simp]:
  "countersNonNegative (pause a s) = countersNonNegative s"
  "countersNonNegative (unpause a s) = countersNonNegative s"
  "countersNonNegative (rewind a s) = countersNonNegative s"
  "countersNonNegative (revokeObjectURL u s) = countersNonNegative s"
  "countersNonNegative (snd (newAudio s)) = countersNonNegative s"
  by (simp_all add: pause_def unpause_def rewind_def revokeObjectURL_def newAudio_def)

lemma nonneg_fold:
  assumes "\<And>x s. countersNonNegative s \<Longrightarrow> countersNonNegative (f x s)"
  shows "countersNonNegative s \<Longrightarrow> countersNonNegative (fold f xs s)"
  by (induction xs arbitrary: s) (simp_all add: assms)

lemma nonneg_cleanupAudioNodes [simp]:
  "countersNonNegative s \<Longrightarrow> countersNonNegative (cleanupAudioNodes i a s)"
  by (simp add: cleanupAudioNodes_def split: option.splits)

lemma nonneg_evict [simp]: "countersNonNegative s \<Longrightarrow> countersNonNegative (evict i a s)"
  by (simp add: evict_def)

lemma nonneg_limitAudioInstances [simp]:
  "countersNonNegative s \<Longrightarrow> countersNonNegative (limitAudioInstances i m s)"
  by (simp add: limitAudioInstances_def Let_def nonneg_fold split: option.splits)

lemma nonneg_echoStep [simp]:
  "countersNonNegative s \<Longrightarrow> countersNonNegative (echoStep env i data k s)"
  using nonneg_elem_ops(5) [of s]
  by (simp add: echoStep_def Let_def split_beta)

lemma nonneg_echoPath [simp]:
  "countersNonNegative s \<Longrightarrow> countersNonNegative (echoPath env i data s)"
  by (simp add: echoPath_def Let_def nonneg_fold)

lemma nonneg_startPlayback [simp]:
  "countersNonNegative s \<Longrightarrow> countersNonNegative (startPlayback env a s)"
  by (simp add: startPlayback_def Let_def)

lemma nonneg_cachedPath [simp]:
  "countersNonNegative s \<Longrightarrow> countersNonNegative (cachedPath env i data s)"
  using nonneg_elem_ops(5) [of s]
  by (simp add: cachedPath_def Let_def split_beta split: option.splits)

lemma nonneg_stopLoop [simp]:
  "countersNonNegative s \<Longrightarrow> countersNonNegative (stopLoop i s)"
  by (simp add: stopLoop_def Let_def split: option.splits)

lemma nonneg_playAudio:
  "countersNonNegative s \<Longrightarrow> countersNonNegative (playAudio env i s)"
  by (simp add: playAudio_def ensureContext_def Let_def split: option.splits)

lemma nonneg_echoEnded:
  "countersNonNegative s \<Longrightarrow> countersNonNegative (echoEnded i a s)"
  by (simp add: echoEnded_def Let_def split: option.splits)

lemma nonneg_cachedEnded:
  "countersNonNegative s \<Longrightarrow> countersNonNegative (cachedEnded i a s)"
  by (simp add: cachedEnded_def Let_def split: option.splits)

lemma nonneg_forceCleanupAllAudio: "countersNonNegative (forceCleanupAllAudio s)"
  by (simp add: countersNonNegative_def forceCleanup_fields)

lemma nonneg_performPeriodicCleanup: "countersNonNegative s \<Longrightarrow> countersNonNegative (performPeriodicCleanup s)"
  by (simp add: performPeriodicCleanup_def Let_def nonneg_forceCleanupAllAudio)
     (simp add: countersNonNegative_def)

lemma nonneg_updateAudioData:
  "countersNonNegative s \<Longrightarrow> countersNonNegative (updateAudioData i data s)"
  by (simp add: updateAudioData_def dropCached_def Let_def split: option.splits)

lemma nonneg_stopCached [simp]: "countersNonNegative (stopCached c s) = countersNonNegative s"
  by (simp add: stopCached_def)

lemma nonneg_stopAllCached [simp]:
  "countersNonNegative (fold (\<lambda>(_, c). stopCached c) cs s) = countersNonNegative s"
  by (induction cs arbitrary: s) (simp_all add: split_beta)

lemma nonneg_importData:
  "countersNonNegative s \<Longrightarrow> countersNonNegative (snd (importData file s))"
  by (simp add: importData_def Let_def split: option.splits json.splits)

lemma nonneg_step: "countersNonNegative s \<Longrightarrow> countersNonNegative (step op s)"
  by (cases op)
     (simp_all add: nonneg_playAudio nonneg_echoEnded nonneg_cachedEnded
        nonneg_forceCleanupAllAudio nonneg_performPeriodicCleanup nonneg_updateAudioData
        nonneg_importData)

lemma nonneg_initialEngine: "countersNonNegative initialEngine"
  by (simp add: countersNonNegative_def initialEngine_def)

text \<open>
  Claim C8. The resource-ledger counters (\<^verbatim>\<open>audioElements\<close>, \<^verbatim>\<open>audioNodes\<close>,
  \<^verbatim>\<open>objectUrls\<close>) are non-negative after every engine operation: every decrement is
  floored at zero, the periodic sweep recomputes two of them from list lengths and forced
  cleanup resets all three, so every state reached from the initial one by any sequence of
  operations (triggers, end-of-stream handlers, sweeps, forced cleanups, slot updates,
  imports, context changes) has non-negative counters.
\<close>

theorem counters_never_negative: "countersNonNegative (run ops initialEngine)"
  unfolding run_def by (rule nonneg_fold [OF nonneg_step nonneg_initialEngine])

subsection \<open>Triggering a slot: the echo burst\<close>

lemma map_of_push: "map_of (push i x al) i = Some ((case map_of al i of None \<Rightarrow> [] | Some xs \<Rightarrow> xs) @ [x])"
  by (simp add: push_def update_conv')

lemma echoStep_instancesOf:
  "instancesOf (echoStep env i data k s) i = instancesOf s i @ [nextId s]"
  by (simp add: echoStep_def Let_def newAudio_def instancesOf_def map_of_push
      incObjectUrls_def incAudioNodes_def incAudioElements_def)

lemma echoStep_timers:
  "timers (echoStep env i data k s) = timers s @ [(nextId s, real k * delayMs data)]"
  by (simp add: echoStep_def Let_def newAudio_def
      incObjectUrls_def incAudioNodes_def incAudioElements_def)

lemma echoStep_nextId: "nextId (echoStep env i data k s) = Suc (nextId s)"
  by (simp add: echoStep_def Let_def newAudio_def
      incObjectUrls_def incAudioNodes_def incAudioElements_def)

lemma echoStep_elems:
  "elems (echoStep env i data k s) =
     (elems s)(nextId s := \<lparr>src = nextId s, paused = True, currentTime = 0,
        playbackRate = speed data, el_volume = min (echoVolume data k) 1, el_loop = False\<rparr>)"
  by (simp add: echoStep_def Let_def newAudio_def
      incObjectUrls_def incAudioNodes_def incAudioElements_def)

lemma fold_echoStep_instancesOf:
  "instancesOf (fold (echoStep env i data) ks s) i = instancesOf s i @ map (\<lambda>j. nextId s + j) [0..<length ks]"
proof (induction ks arbitrary: s)
  case Nil then show ?case by simp
next
  case (Cons k ks)
  have "map (\<lambda>j. nextId s + j) [0..<Suc (length ks)] = nextId s # map (\<lambda>j. Suc (nextId s) + j) [0..<length ks]"
    by (simp add: upt_rec [of 0] map_Suc_upt [symmetric] del: upt_Suc)
  then show ?case by (simp add: Cons.IH echoStep_instancesOf echoStep_nextId)
qed

lemma echoPath_instancesOf:
  "instancesOf (echoPath env i data s) i =
     instancesOf s i @ map (\<lambda>j. nextId s + j) [0..<nat (echoCount data + 1)]"
  by (simp add: echoPath_def Let_def instancesOf_def [of "_\<lparr>isPlaying := _\<rparr>"] 
      fold_echoStep_instancesOf [unfolded instancesOf_def] instancesOf_def [of s])


lemma fold_keeps:
  assumes "\<And>x s. g (f x s) = g s"
  shows "g (fold f xs s) = g s"
  by (induction xs arbitrary: s) (simp_all add: assms)

lemma cleanupAudioNodes_keeps:
  "nextId (cleanupAudioNodes i a s) = nextId s"
  "timers (cleanupAudioNodes i a s) = timers s"
  "audioData (cleanupAudioNodes i a s) = audioData s"
  "audioInstancesRefs (cleanupAudioNodes i a s) = audioInstancesRefs s"
  by (simp_all add: cleanupAudioNodes_def decAudioNodes_def split: option.splits)

lemma evict_keeps:
  "nextId (evict i a s) = nextId s"
  "timers (evict i a s) = timers s"
  "audioData (evict i a s) = audioData s"
  "audioInstancesRefs (evict i a s) = audioInstancesRefs s"
  by (simp_all add: evict_def decAudioElements_def decObjectUrls_def revokeObjectURL_def
      cleanupAudioNodes_keeps pause_def)

lemma limitAudioInstances_keeps:
  "nextId (limitAudioInstances i m s) = nextId s"
  "timers (limitAudioInstances i m s) = timers s"
  "audioData (limitAudioInstances i m s) = audioData s"
  by (simp_all add: limitAudioInstances_def Let_def fold_keeps [where f = "evict i"] evict_keeps
      split: option.splits)

lemma limitAudioInstances_noop:
  "length (instancesOf s i) < m \<Longrightarrow> limitAudioInstances i m s = s"
  by (simp add: limitAudioInstances_def instancesOf_def split: option.splits)

lemma limitAudioInstances_instancesOf:
  "instancesOf (limitAudioInstances i m s) i =
     (if length (instancesOf s i) \<ge> m \<and> map_of (audioInstancesRefs s) i \<noteq> None
      then drop (length (instancesOf s i) - m + 1) (instancesOf s i) else instancesOf s i)"
  by (simp add: limitAudioInstances_def Let_def instancesOf_def [of "fold _ _ _"]
      fold_keeps [where f = "evict i"] evict_keeps update_conv' split: option.splits)
     (simp add: instancesOf_def)

lemma echoStep_audioData: "audioData (echoStep env i data k s) = audioData s"
  by (simp add: echoStep_def Let_def newAudio_def
      incObjectUrls_def incAudioNodes_def incAudioElements_def)

lemma echoPath_audioData: "audioData (echoPath env i data s) = audioData s"
  by (simp add: echoPath_def Let_def fold_keeps [where f = "echoStep env i data"] echoStep_audioData)

lemma cachedPath_audioData: "audioData (cachedPath env i data s) = audioData s"
  by (simp add: cachedPath_def Let_def newAudio_def startPlayback_def unpause_def rewind_def
      incObjectUrls_def incAudioNodes_def incAudioElements_def split_beta split: option.splits)

lemma ensureContext_keeps:
  "nextId (ensureContext env s) = nextId s"
  "timers (ensureContext env s) = timers s"
  "audioData (ensureContext env s) = audioData s"
  "elems (ensureContext env s) = elems s"
  "instancesOf (ensureContext env s) i = instancesOf s i"
  by (simp_all add: ensureContext_def Let_def instancesOf_def)

lemma playAudio_audioData: "audioData (playAudio env i s) = audioData s"
  by (simp add: playAudio_def Let_def stopLoop_def rewind_def pause_def echoPath_audioData
      cachedPath_audioData limitAudioInstances_keeps ensureContext_keeps split: option.splits)

lemma limitAudioInstances_context:
  "audioContextRef (limitAudioInstances i m s) = audioContextRef s"
  by (simp add: limitAudioInstances_def Let_def fold_keeps [where f = "evict i"] evict_def
      decAudioElements_def decObjectUrls_def revokeObjectURL_def cleanupAudioNodes_def
      decAudioNodes_def pause_def split: option.splits)

lemma playAudio_echo:
  assumes "audioData s i = Some data" "audioBlob data \<noteq> None" "hasEcho data"
    "audioContextRef s \<noteq> None \<or> \<not> createThrows env"
  shows "playAudio env i s = echoPath env i data (ensureContext env (limitAudioInstances i 8 s))"
  using assms by (auto simp: playAudio_def Let_def hasEcho_def limitAudioInstances_context)

lemma playAudio_echo_instancesOf:
  assumes "audioData s i = Some data" "audioBlob data \<noteq> None" "hasEcho data"
    "audioContextRef s \<noteq> None \<or> \<not> createThrows env"
  shows "instancesOf (playAudio env i s) i =
     instancesOf (limitAudioInstances i 8 s) i @ map (\<lambda>j. nextId s + j) [0..<nat (echoCount data + 1)]"
  by (simp add: playAudio_echo [OF assms] echoPath_instancesOf ensureContext_keeps limitAudioInstances_keeps)

lemma hasEcho_echoPad: "0 < fb \<Longrightarrow> hasEcho (echoPad fb)"
  by (simp add: hasEcho_def echoPad_def truthy_def num_or_def)

lemma echoCount_echoPad_half: "echoCount (echoPad (1/2)) = 6"
  by (simp add: echoCount_def echoPad_def num_or_def)

lemma echoCount_echoPad_03: "echoCount (echoPad (3/10)) = 4"
  by (simp add: echoCount_def echoPad_def num_or_def)

lemma first_trigger:
  "instancesOf (playAudio runningEnv ''1'' (engineWith (echoPad (1/2)))) ''1'' = [0, 1, 2, 3, 4, 5, 6]"
proof -
  have "instancesOf (engineWith (echoPad (1/2))) ''1'' = []" "nextId (engineWith (echoPad (1/2))) = 0"
    by (simp_all add: instancesOf_def engineWith_def initialEngine_def)
  moreover have "audioData (engineWith (echoPad (1/2))) ''1'' = Some (echoPad (1/2))"
    by (simp add: engineWith_def)
  moreover have "audioBlob (echoPad (1/2)) \<noteq> None" by (simp add: echoPad_def)
  moreover have "\<not> createThrows runningEnv" by (simp add: runningEnv_def)
  ultimately show ?thesis
    by (simp add: playAudio_echo_instancesOf [where data = "echoPad (1/2)"] hasEcho_echoPad
        echoCount_echoPad_half limitAudioInstances_noop upt_rec)
qed

text \<open>
  Claim C1. The per-slot instance list has at most 8 entries after any single
  \<^verbatim>\<open>playAudio\<close> call, the echo path included. The code evicts down to seven entries
  before either path and the echo path then pushes \<open>echoCount + 1\<close> new elements: with
  feedback 0.5 that is seven per call, so two triggers in a row from the initial state
  leave 14 instances in the list of slot 1.
\<close>

theorem echo_burst_exceeds_cap:
  "length (instancesOf (run [PlayAudio runningEnv ''1'', PlayAudio runningEnv ''1'']
              (engineWith (echoPad (1/2)))) ''1'') = 14"
proof -
  let ?s1 = "playAudio runningEnv ''1'' (engineWith (echoPad (1/2)))"
  have d: "audioData ?s1 ''1'' = Some (echoPad (1/2))"
    by (simp add: playAudio_audioData engineWith_def)
  have b: "audioBlob (echoPad (1/2)) \<noteq> None" by (simp add: echoPad_def)
  have e: "\<not> createThrows runningEnv" by (simp add: runningEnv_def)
  have "instancesOf (playAudio runningEnv ''1'' ?s1) ''1'' =
      instancesOf (limitAudioInstances ''1'' 8 ?s1) ''1'' @ map (\<lambda>j. nextId ?s1 + j) [0..<nat (echoCount (echoPad (1/2)) + 1)]"
    by (rule playAudio_echo_instancesOf [OF d b]) (simp_all add: hasEcho_echoPad e)
  moreover have "limitAudioInstances ''1'' 8 ?s1 = ?s1"
    by (rule limitAudioInstances_noop) (simp add: first_trigger)
  ultimately show ?thesis
    by (simp add: run_def first_trigger echoCount_echoPad_half)
qed

lemma upto_0_4: "map nat [0..4] = [0, 1, 2, 3, 4]"
  by (simp add: upto.simps)

lemma fold_echoStep_nextId: "nextId (fold (echoStep env i data) ks s) = nextId s + length ks"
  by (induction ks arbitrary: s) (simp_all add: echoStep_nextId)

lemma fold_echoStep_timers:
  "timers (fold (echoStep env i data) ks s) =
     timers s @ map (\<lambda>(j, k). (nextId s + j, real k * delayMs data)) (zip [0..<length ks] ks)"
proof (induction ks arbitrary: s)
  case Nil then show ?case by simp
next
  case (Cons k ks)
  have "[0..<Suc (length ks)] = 0 # map Suc [0..<length ks]"
    by (metis map_Suc_upt upt_conv_Cons zero_less_Suc)
  then have "zip [0..<length (k # ks)] (k # ks) = (0, k) # zip (map Suc [0..<length ks]) ks"
    by simp
  then show ?case
    unfolding fold_simps Cons.IH echoStep_timers echoStep_nextId
    by (simp add: zip_map1 split_beta del: upt_Suc)
qed

lemma echoPath_nextId:
  "nextId (echoPath env i data s) = nextId s + length (map nat [0..echoCount data])"
  by (simp add: echoPath_def Let_def fold_echoStep_nextId)

lemma echoPath_timers:
  "timers (echoPath env i data s) =
     timers s @ map (\<lambda>(j, k). (nextId s + j, real k * delayMs data))
       (zip [0..<length (map nat [0..echoCount data])] (map nat [0..echoCount data]))"
  by (simp add: echoPath_def Let_def fold_echoStep_timers)

lemma echoVolume_03:
  assumes "volume data = Some 1" "echoFeedback data = Some 0.3"
  shows "echoVolume data 0 = 1" "echoVolume data (Suc 0) = 0.6" "echoVolume data 2 = 0.18"
    "echoVolume data 3 = 0.054" "echoVolume data 4 = 0.0162"
  using assms by (simp_all add: echoVolume_def num_or_def power_numeral_reduce eval_nat_numeral)

text \<open>
  Claim C2, as the code has it. For a slot with a clip, loop disabled, echo delay 0.2 s,
  feedback 0.3, gain 1 and balance 0, and a shared context that exists or can be created,
  one \<^verbatim>\<open>playAudio\<close> call creates exactly five new elements (\<open>echoCount\<close> is
  \<open>min (\<lfloor>0.3 * 6\<rfloor> + 3) 6 = 4\<close>, plus the original), appended to what eviction left of
  the slot's list, with volumes 1, 0.6, 0.18, 0.054, 0.0162 and timers at 0, 200, 400, 600
  and 800 ms.
\<close>

theorem echo_burst_feedback_03:
  assumes "audioData s i = Some data" "audioBlob data \<noteq> None" "loop data \<noteq> Some True"
    "echoDelay data = Some 0.2" "echoFeedback data = Some 0.3" "volume data = Some 1"
    "balance data = 0" "audioContextRef s \<noteq> None \<or> \<not> createThrows env"
  shows "instancesOf (playAudio env i s) i =
           instancesOf (limitAudioInstances i 8 s) i @
             [nextId s, nextId s + 1, nextId s + 2, nextId s + 3, nextId s + 4] \<and>
         nextId (playAudio env i s) = nextId s + 5 \<and>
         map (\<lambda>a. el_volume (elems (playAudio env i s) a))
             [nextId s, nextId s + 1, nextId s + 2, nextId s + 3, nextId s + 4] =
           [1, 0.6, 0.18, 0.054, 0.0162] \<and>
         timers (playAudio env i s) =
           timers s @ [(nextId s, 0), (nextId s + 1, 200), (nextId s + 2, 400),
                       (nextId s + 3, 600), (nextId s + 4, 800)]"
proof -
  have he: "hasEcho data"
    using assms(3,4,5) by (simp add: hasEcho_def truthy_def num_or_def)
  have ec: "echoCount data = 4"
    using assms(5) by (simp add: echoCount_def num_or_def)
  have dm: "delayMs data = 200"
    using assms(4) by (simp add: delayMs_def num_or_def)
  let ?t = "ensureContext env (limitAudioInstances i 8 s)"
  have pa: "playAudio env i s = echoPath env i data ?t"
    by (rule playAudio_echo [OF assms(1,2) he assms(8)])
  have nt: "nextId ?t = nextId s" "timers ?t = timers s"
    by (simp_all add: ensureContext_keeps limitAudioInstances_keeps)
  have 1: "instancesOf (playAudio env i s) i =
           instancesOf (limitAudioInstances i 8 s) i @
             [nextId s, nextId s + 1, nextId s + 2, nextId s + 3, nextId s + 4]"
    by (simp add: playAudio_echo_instancesOf [OF assms(1,2) he assms(8)] ec upt_rec)
  have 2: "nextId (playAudio env i s) = nextId s + 5"
    by (simp add: pa echoPath_nextId nt ec)
  have 3: "timers (playAudio env i s) =
           timers s @ [(nextId s, 0), (nextId s + 1, 200), (nextId s + 2, 400),
                       (nextId s + 3, 600), (nextId s + 4, 800)]"
    unfolding pa echoPath_timers nt ec upto_0_4 dm by (simp add: upt_rec)
  have 4: "map (\<lambda>a. el_volume (elems (playAudio env i s) a))
             [nextId s, nextId s + 1, nextId s + 2, nextId s + 3, nextId s + 4] =
           [1, 0.6, 0.18, 0.054, 0.0162]"
    by (simp add: pa echoPath_def Let_def ec upto_0_4 echoStep_elems echoStep_nextId nt
        echoVolume_03 [OF assms(6,5)])
  show ?thesis using 1 2 3 4 by simp
qed

theorem echo_burst_feedback_03_witness:
  "audioData (engineWith (echoPad (3/10))) ''1'' = Some (echoPad (3/10)) \<and>
   instancesOf (playAudio runningEnv ''1'' (engineWith (echoPad (3/10)))) ''1'' = [0, 1, 2, 3, 4] \<and>
   map snd (timers (playAudio runningEnv ''1'' (engineWith (echoPad (3/10))))) = [0, 200, 400, 600, 800]"
proof -
  have d: "audioData (engineWith (echoPad (3/10))) ''1'' = Some (echoPad (3/10))"
    by (simp add: engineWith_def)
  have e: "audioContextRef (engineWith (echoPad (3/10))) \<noteq> None \<or> \<not> createThrows runningEnv"
    by (simp add: runningEnv_def)
  have n: "instancesOf (engineWith (echoPad (3/10))) ''1'' = []" "nextId (engineWith (echoPad (3/10))) = 0"
    "timers (engineWith (echoPad (3/10))) = []"
    by (simp_all add: instancesOf_def engineWith_def initialEngine_def)
  have l: "limitAudioInstances ''1'' 8 (engineWith (echoPad (3/10))) = engineWith (echoPad (3/10))"
    by (rule limitAudioInstances_noop) (simp add: n)
  have p: "audioBlob (echoPad (3/10)) \<noteq> None" "loop (echoPad (3/10)) \<noteq> Some True"
    "echoDelay (echoPad (3/10)) = Some 0.2" "echoFeedback (echoPad (3/10)) = Some 0.3"
    "volume (echoPad (3/10)) = Some 1" "balance (echoPad (3/10)) = 0"
    by (simp_all add: echoPad_def)
  show ?thesis
    using echo_burst_feedback_03 [OF d p e]
    by (simp add: d l n)
qed

text \<open>
  Claim C2 as stated (four instances, offsets 0 to 600 ms) fails at exactly the input it
  names: the call creates five instances and schedules five timers.
\<close>

theorem echo_burst_four_instances_counterexample:
  "length (instancesOf (playAudio runningEnv ''1'' (engineWith (echoPad (3/10)))) ''1'') = 5 \<and>
   map snd (timers (playAudio runningEnv ''1'' (engineWith (echoPad (3/10))))) = [0, 200, 400, 600, 800]"
proof -
  have d: "audioData (engineWith (echoPad (3/10))) ''1'' = Some (echoPad (3/10))"
    by (simp add: engineWith_def)
  have b: "audioBlob (echoPad (3/10)) \<noteq> None" by (simp add: echoPad_def)
  have e: "audioContextRef (engineWith (echoPad (3/10))) \<noteq> None \<or> \<not> createThrows runningEnv"
    by (simp add: runningEnv_def)
  have n: "instancesOf (engineWith (echoPad (3/10))) ''1'' = []" "nextId (engineWith (echoPad (3/10))) = 0"
    "timers (engineWith (echoPad (3/10))) = []"
    by (simp_all add: instancesOf_def engineWith_def initialEngine_def)
  have l: "limitAudioInstances ''1'' 8 (engineWith (echoPad (3/10))) = engineWith (echoPad (3/10))"
    by (rule limitAudioInstances_noop) (simp add: n)
  have dm: "delayMs (echoPad (3/10)) = 200"
    by (simp add: delayMs_def num_or_def echoPad_def)
  have "playAudio runningEnv ''1'' (engineWith (echoPad (3/10))) =
      echoPath runningEnv ''1'' (echoPad (3/10))
        (ensureContext runningEnv (limitAudioInstances ''1'' 8 (engineWith (echoPad (3/10)))))"
    by (rule playAudio_echo [OF d b _ e]) (simp add: hasEcho_echoPad)
  then have pa: "playAudio runningEnv ''1'' (engineWith (echoPad (3/10))) =
      echoPath runningEnv ''1'' (echoPad (3/10)) (ensureContext runningEnv (engineWith (echoPad (3/10))))"
    by (simp add: l)
  have 1: "length (instancesOf (playAudio runningEnv ''1'' (engineWith (echoPad (3/10)))) ''1'') = 5"
    by (simp add: pa echoPath_instancesOf ensureContext_keeps n echoCount_echoPad_03)
  have 2: "map snd (timers (playAudio runningEnv ''1'' (engineWith (echoPad (3/10))))) = [0, 200, 400, 600, 800]"
    unfolding pa echoPath_timers ensureContext_keeps n echoCount_echoPad_03 upto_0_4 dm
    by (simp add: upt_rec)
  show ?thesis using 1 2 by simp
qed

subsection \<open>Loop toggle and the slot store\<close>

lemma playAudio_stop:
  assumes "audioData s i = Some data" "audioBlob data \<noteq> None" "truthy (loop data)"
    "truthy (isPlaying s i)"
  shows "playAudio env i s = stopLoop i s"
  using assms by (auto simp: playAudio_def)

lemma playAudio_loop_start:
  assumes "audioData s i = Some data" "audioBlob data \<noteq> None" "truthy (loop data)"
    "\<not> truthy (isPlaying s i)" "audioContextRef s \<noteq> None \<or> \<not> createThrows env"
  shows "playAudio env i s = cachedPath env i data (ensureContext env (limitAudioInstances i 8 s))"
  using assms by (auto simp: playAudio_def Let_def hasEcho_def limitAudioInstances_context)

lemma stopLoop_fields:
  "isPlaying (stopLoop i s) i = Some False"
  "audioInstancesRefs (stopLoop i s) = audioInstancesRefs s"
  "audioNodesRef (stopLoop i s) = audioNodesRef s"
  "resourceCountRef (stopLoop i s) = resourceCountRef s"
  "cachedAudioRef (stopLoop i s) = cachedAudioRef s"
  "nextId (stopLoop i s) = nextId s"
  by (simp_all add: stopLoop_def Let_def rewind_def pause_def split: option.splits)

lemma stopLoop_cached:
  "map_of (cachedAudioRef s) i = Some c \<Longrightarrow>
     paused (elems (stopLoop i s) (audio c)) \<and> currentTime (elems (stopLoop i s) (audio c)) = 0"
  by (simp add: stopLoop_def Let_def rewind_def pause_def)

lemma startPlayback_fields:
  "isPlaying (startPlayback env a s) = isPlaying s"
  "cachedAudioRef (startPlayback env a s) = cachedAudioRef s"
  "audioInstancesRefs (startPlayback env a s) = audioInstancesRefs s"
  "el_loop (elems (startPlayback env a s) b) = el_loop (elems s b)"
  "currentTime (elems (startPlayback env a s) b) = currentTime (elems s b)"
  "\<not> playRejects env \<Longrightarrow> \<not> paused (elems (startPlayback env a s) a)"
  by (simp_all add: startPlayback_def unpause_def Let_def)

lemma cachedPath_result:
  assumes "truthy (loop data)"
  shows "isPlaying (cachedPath env i data t) i = Some True \<and>
     (\<exists>c. map_of (cachedAudioRef (cachedPath env i data t)) i = Some c \<and>
          instancesOf (cachedPath env i data t) i = instancesOf t i @ [audio c] \<and>
          el_loop (elems (cachedPath env i data t) (audio c)) \<and>
          currentTime (elems (cachedPath env i data t) (audio c)) = 0 \<and>
          (\<not> playRejects env \<longrightarrow> \<not> paused (elems (cachedPath env i data t) (audio c))))"
proof (cases "map_of (cachedAudioRef t) i")
  case None
  then show ?thesis using assms
    by (simp add: cachedPath_def Let_def newAudio_def startPlayback_fields instancesOf_def
        map_of_push update_conv' incObjectUrls_def incAudioNodes_def incAudioElements_def)
next
  case (Some c)
  then show ?thesis using assms
    by (simp add: cachedPath_def Let_def rewind_def startPlayback_fields instancesOf_def
        map_of_push incObjectUrls_def incAudioNodes_def incAudioElements_def)
qed

text \<open>The path without echo keeps the cap of eight that the echo burst exceeds: eviction
  leaves at most seven instances and the cached path adds one.\<close>

lemma limitAudioInstances_room: "length (instancesOf (limitAudioInstances i 8 s) i) \<le> 7"
  by (simp add: limitAudioInstances_instancesOf) (simp add: instancesOf_def split: option.splits)

lemma cachedPath_length:
  "length (instancesOf (cachedPath env i data t) i) = Suc (length (instancesOf t i))"
  by (cases "map_of (cachedAudioRef t) i")
     (simp_all add: cachedPath_def Let_def newAudio_def rewind_def startPlayback_fields
        instancesOf_def map_of_push incObjectUrls_def incAudioNodes_def incAudioElements_def)

lemma cached_trigger_within_cap:
  assumes "audioData s i = Some data" "audioBlob data \<noteq> None" "\<not> hasEcho data"
    "\<not> (truthy (loop data) \<and> truthy (isPlaying s i))"
  shows "length (instancesOf (playAudio env i s) i) \<le> 8"
  using assms limitAudioInstances_room [of i s]
  by (auto simp: playAudio_def Let_def cachedPath_length ensureContext_keeps)

text \<open>
  Claim C5, as the code has it. For a slot with a clip and loop enabled: a
  \<^verbatim>\<open>playAudio\<close> call while the slot is playing sets the playing flag to false, pauses
  and rewinds the cached instance (when there is one) and creates nothing: instance lists,
  node lists, counters, cache and element allocation are unchanged. A call while the slot
  is not playing, provided the shared context exists or can be created, sets the playing
  flag to true and leaves a cached instance, with its loop flag set and rewound to the
  start, as the last entry of the slot's list; playback of that instance starts unless
  \<^verbatim>\<open>play()\<close> is rejected.
\<close>

theorem loop_toggle:
  assumes "audioData s i = Some data" "audioBlob data \<noteq> None" "truthy (loop data)"
  shows "(truthy (isPlaying s i) \<longrightarrow>
            isPlaying (playAudio env i s) i = Some False \<and>
            audioInstancesRefs (playAudio env i s) = audioInstancesRefs s \<and>
            audioNodesRef (playAudio env i s) = audioNodesRef s \<and>
            resourceCountRef (playAudio env i s) = resourceCountRef s \<and>
            cachedAudioRef (playAudio env i s) = cachedAudioRef s \<and>
            nextId (playAudio env i s) = nextId s \<and>
            (\<forall>c. map_of (cachedAudioRef s) i = Some c \<longrightarrow>
                 paused (elems (playAudio env i s) (audio c)) \<and>
                 currentTime (elems (playAudio env i s) (audio c)) = 0)) \<and>
         (\<not> truthy (isPlaying s i) \<and> (audioContextRef s \<noteq> None \<or> \<not> createThrows env) \<longrightarrow>
            isPlaying (playAudio env i s) i = Some True \<and>
            (\<exists>c. map_of (cachedAudioRef (playAudio env i s)) i = Some c \<and>
                 instancesOf (playAudio env i s) i =
                   instancesOf (limitAudioInstances i 8 s) i @ [audio c] \<and>
                 el_loop (elems (playAudio env i s) (audio c)) \<and>
                 currentTime (elems (playAudio env i s) (audio c)) = 0 \<and>
                 (\<not> playRejects env \<longrightarrow> \<not> paused (elems (playAudio env i s) (audio c)))))"
proof (intro conjI impI)
  assume p: "truthy (isPlaying s i)"
  note st = playAudio_stop [OF assms p]
  show "isPlaying (playAudio env i s) i = Some False"
    "audioInstancesRefs (playAudio env i s) = audioInstancesRefs s"
    "audioNodesRef (playAudio env i s) = audioNodesRef s"
    "resourceCountRef (playAudio env i s) = resourceCountRef s"
    "cachedAudioRef (playAudio env i s) = cachedAudioRef s"
    "nextId (playAudio env i s) = nextId s"
    by (simp_all add: st stopLoop_fields)
  show "\<forall>c. map_of (cachedAudioRef s) i = Some c \<longrightarrow>
                 paused (elems (playAudio env i s) (audio c)) \<and>
                 currentTime (elems (playAudio env i s) (audio c)) = 0"
    by (simp add: st stopLoop_cached)
next
  assume "\<not> truthy (isPlaying s i) \<and> (audioContextRef s \<noteq> None \<or> \<not> createThrows env)"
  then have pa: "playAudio env i s = cachedPath env i data (ensureContext env (limitAudioInstances i 8 s))"
    using playAudio_loop_start [OF assms] by blast
  note r = cachedPath_result [OF assms(3), of env i "ensureContext env (limitAudioInstances i 8 s)"]
  show "isPlaying (playAudio env i s) i = Some True"
    using r by (simp add: pa)
  show "\<exists>c. map_of (cachedAudioRef (playAudio env i s)) i = Some c \<and>
                 instancesOf (playAudio env i s) i =
                   instancesOf (limitAudioInstances i 8 s) i @ [audio c] \<and>
                 el_loop (elems (playAudio env i s) (audio c)) \<and>
                 currentTime (elems (playAudio env i s) (audio c)) = 0 \<and>
                 (\<not> playRejects env \<longrightarrow> \<not> paused (elems (playAudio env i s) (audio c)))"
    using r by (simp add: pa ensureContext_keeps)
qed

theorem loop_toggle_witness:
  "audioData (engineWith loopPad) ''1'' = Some loopPad \<and> audioBlob loopPad \<noteq> None \<and>
   truthy (loop loopPad) \<and> \<not> truthy (isPlaying (engineWith loopPad) ''1'') \<and>
   \<not> createThrows runningEnv \<and>
   isPlaying (playAudio runningEnv ''1'' (engineWith loopPad)) ''1'' = Some True \<and>
   isPlaying (playAudio runningEnv ''1'' (playAudio runningEnv ''1'' (engineWith loopPad))) ''1'' = Some False \<and>
   audioInstancesRefs (playAudio runningEnv ''1'' (playAudio runningEnv ''1'' (engineWith loopPad))) =
     audioInstancesRefs (playAudio runningEnv ''1'' (engineWith loopPad))"
proof -
  let ?s0 = "engineWith loopPad"
  let ?s1 = "playAudio runningEnv ''1'' ?s0"
  have d0: "audioData ?s0 ''1'' = Some loopPad" by (simp add: engineWith_def)
  have d1: "audioData ?s1 ''1'' = Some loopPad" by (simp add: playAudio_audioData d0)
  have b: "audioBlob loopPad \<noteq> None" and l: "truthy (loop loopPad)"
    by (simp_all add: loopPad_def truthy_def)
  have np: "\<not> truthy (isPlaying ?s0 ''1'')"
    by (simp add: engineWith_def initialEngine_def truthy_def)
  have e: "\<not> createThrows runningEnv" by (simp add: runningEnv_def)
  have 1: "isPlaying ?s1 ''1'' = Some True"
    using loop_toggle [OF d0 b l, of runningEnv] np e by simp
  then have p1: "truthy (isPlaying ?s1 ''1'')" by (simp add: truthy_def)
  have 2: "isPlaying (playAudio runningEnv ''1'' ?s1) ''1'' = Some False \<and>
      audioInstancesRefs (playAudio runningEnv ''1'' ?s1) = audioInstancesRefs ?s1"
    using loop_toggle [OF d1 b l, of runningEnv] p1 by simp
  show ?thesis using d0 b l np e 1 2 by simp
qed

text \<open>
  Claim C5 as stated (every call on a looping slot that is not playing starts playback and
  sets the playing flag) fails in two ways on a slot with a clip, loop on and echo off.
  When \<^verbatim>\<open>new AudioContext()\<close> throws, \<^verbatim>\<open>playAudio\<close> returns before it registers
  anything: the playing flag is not set and the slot has no instance. When
  \<^verbatim>\<open>audio.play()\<close> is rejected and the context is not suspended, the flag is set to
  true while the cached element stays paused.
\<close>

theorem loop_start_fails_counterexample:
  "truthy (loop loopPad) \<and>
   isPlaying (engineWith loopPad) ''1'' = None \<and>
   isPlaying (playAudio (runningEnv\<lparr>createThrows := True\<rparr>) ''1'' (engineWith loopPad)) ''1'' = None \<and>
   instancesOf (playAudio (runningEnv\<lparr>createThrows := True\<rparr>) ''1'' (engineWith loopPad)) ''1'' = [] \<and>
   isPlaying (playAudio (runningEnv\<lparr>playRejects := True\<rparr>) ''1'' (engineWith loopPad)) ''1'' = Some True \<and>
   paused (elems (playAudio (runningEnv\<lparr>playRejects := True\<rparr>) ''1'' (engineWith loopPad)) 0)"
proof -
  have l: "limitAudioInstances ''1'' 8 (engineWith loopPad) = engineWith loopPad"
    by (simp add: limitAudioInstances_def engineWith_def initialEngine_def)
  have c: "audioContextRef (engineWith loopPad) = None" "isPlaying (engineWith loopPad) ''1'' = None"
    "audioData (engineWith loopPad) ''1'' = Some loopPad" "instancesOf (engineWith loopPad) ''1'' = []"
    by (simp_all add: engineWith_def initialEngine_def instancesOf_def)
  have p: "truthy (loop loopPad)" "audioBlob loopPad \<noteq> None" "\<not> hasEcho loopPad"
    by (simp_all add: loopPad_def truthy_def hasEcho_def)
  have 1: "playAudio (runningEnv\<lparr>createThrows := True\<rparr>) ''1'' (engineWith loopPad) = engineWith loopPad"
    using p by (auto simp: playAudio_def c l truthy_def)
  have 2: "playAudio (runningEnv\<lparr>playRejects := True\<rparr>) ''1'' (engineWith loopPad) =
      cachedPath (runningEnv\<lparr>playRejects := True\<rparr>) ''1'' loopPad
        (ensureContext (runningEnv\<lparr>playRejects := True\<rparr>) (engineWith loopPad))"
    using p by (auto simp: playAudio_def c l truthy_def runningEnv_def)
  have 3: "isPlaying (cachedPath (runningEnv\<lparr>playRejects := True\<rparr>) ''1'' loopPad
        (ensureContext (runningEnv\<lparr>playRejects := True\<rparr>) (engineWith loopPad))) ''1'' = Some True"
    using cachedPath_result [OF p(1)] by blast
  have 4: "paused (elems (cachedPath (runningEnv\<lparr>playRejects := True\<rparr>) ''1'' loopPad
        (ensureContext (runningEnv\<lparr>playRejects := True\<rparr>) (engineWith loopPad))) 0)"
    by (simp add: cachedPath_def ensureContext_def Let_def newAudio_def startPlayback_def
        runningEnv_def engineWith_def initialEngine_def incObjectUrls_def incAudioNodes_def
        incAudioElements_def)
  show ?thesis using p(1) c(2,4) 3 4 by (simp add: 1 2)
qed

text \<open>
  Claim C4. Update has merge semantics, and a clip passed as \<^verbatim>\<open>undefined\<close> clears the
  audio, as \<^verbatim>\<open>handleDelete\<close> relies on. The code reads an \<^verbatim>\<open>undefined\<close> clip as an
  absent field and keeps the previous clip: after \<^verbatim>\<open>handleDelete\<close> on a slot with a
  clip, the clip is still there. The fallback \<^verbatim>\<open>||\<close> also replaces a stored volume of 0
  by 0.75 when the partial has no volume.
\<close>

theorem delete_keeps_clip:
  "map_option audioBlob (audioData (handleDelete ''1'' (engineWith (echoPad (3/10)))) ''1'') = Some (Some exampleClip) \<and>
   map_option volume (audioData (updateAudioData ''1'' \<lparr>name_p = None, audioBlob_p = None, speed_p = None, balance_p = None,
      echoDelay_p = None, echoFeedback_p = None, volume_p = None,
      color_p = None, loop_p = None\<rparr> (engineWith ((echoPad (3/10))\<lparr>volume := Some 0\<rparr>))) ''1'') = Some (Some 0.75)"
  by (simp add: handleDelete_def updateAudioData_def dropCached_def engineWith_def initialEngine_def
      mergeAudioData_def deletePartial_def echoPad_def Let_def num_or_def)

subsection \<open>The PCM container\<close>

lemma length_set [simp]:
  "length (setUint8 v off x) = length v"
  "length (setUint16 v off x) = length v"
  "length (setUint32 v off x) = length v"
  "length (setInt16 v off y) = length v"
  by (simp_all add: setUint8_def setUint16_def setUint32_def setInt16_def Let_def)

lemma length_writeString [simp]: "length (writeString v off str) = length v"
proof -
  have "length (fold (\<lambda>i v. setUint8 v (off + i) (of_char (str ! i))) ks v) = length v" for ks
    by (induction ks arbitrary: v) simp_all
  then show ?thesis by (simp add: writeString_def)
qed

lemma length_writeHeader [simp]: "length (writeHeader b v) = length v"
  by (simp add: writeHeader_def Let_def)

lemma writeString4:
  "writeString v off [a, b, c, d] =
     v[off := of_char a mod 256, off + 1 := of_char b mod 256, off + 2 := of_char c mod 256,
       off + 3 := of_char d mod 256]"
proof -
  have "[0..<length [a, b, c, d]] = [0, Suc 0, Suc (Suc 0), Suc (Suc (Suc 0))]"
    by (simp add: upt_conv_Cons)
  then show ?thesis
    by (simp add: writeString_def setUint8_def numeral_3_eq_3 numeral_2_eq_2)
qed


lemma length_int16Bytes [simp]: "length (int16Bytes x) = 2"
  by (simp add: int16Bytes_def Let_def)

lemma setInt16_splice:
  assumes "off + 2 \<le> length v"
  shows "setInt16 v off x = take off v @ int16Bytes x @ drop (off + 2) v"
proof (rule nth_equalityI)
  show "length (setInt16 v off x) = length (take off v @ int16Bytes x @ drop (off + 2) v)"
    using assms by simp
next
  fix k assume "k < length (setInt16 v off x)"
  then have k: "k < length v" by simp
  consider "k < off" | "k = off" | "k = off + 1" | "off + 2 \<le> k" by linarith
  then show "setInt16 v off x ! k = (take off v @ int16Bytes x @ drop (off + 2) v) ! k"
  proof cases
    case 1 then show ?thesis using assms
      by (simp add: setInt16_def setUint16_def Let_def nth_append)
  next
    case 2 then show ?thesis using assms
      by (simp add: setInt16_def setUint16_def Let_def nth_append int16Bytes_def)
  next
    case 3 then show ?thesis using assms
      by (simp add: setInt16_def setUint16_def Let_def nth_append int16Bytes_def)
  next
    case 4
    then obtain j where j: "k = off + 2 + j" using le_Suc_ex by blast
    have "(take off v @ int16Bytes x @ drop (off + 2) v) ! k = drop (off + 2) v ! j"
      using assms by (simp add: j nth_append)
    moreover have "setInt16 v off x ! k = v ! k"
      by (simp add: setInt16_def setUint16_def Let_def j)
    ultimately show ?thesis using k by (simp add: j)
  qed
qed

lemma fold_setInt16:
  "off + 2 * length xs \<le> length v \<Longrightarrow>
   fold (\<lambda>x (v, off). (setInt16 v off x, off + 2)) xs (v, off) =
     (take off v @ concat (map int16Bytes xs) @ drop (off + 2 * length xs) v, off + 2 * length xs)"
proof (induction xs arbitrary: v off)
  case Nil
  then show ?case by simp
next
  case (Cons x xs)
  let ?v = "setInt16 v off x"
  have sp: "?v = take off v @ int16Bytes x @ drop (off + 2) v"
    using Cons.prems by (intro setInt16_splice) simp
  have le: "off \<le> length v" using Cons.prems by simp
  have t: "take (off + 2) ?v = take off v @ int16Bytes x"
    unfolding sp using le by simp
  have d: "drop (off + 2 + 2 * length xs) ?v = drop (off + 2 * length (x # xs)) v"
    unfolding sp using le by (simp add: add.commute add.left_commute)
  have "fold (\<lambda>x (v, off). (setInt16 v off x, off + 2)) xs (?v, off + 2) =
      (take (off + 2) ?v @ concat (map int16Bytes xs) @ drop (off + 2 + 2 * length xs) ?v,
       off + 2 + 2 * length xs)"
    using Cons.prems by (intro Cons.IH) simp
  then show ?case
    unfolding fold_simps by (simp add: t d del: add_2_eq_Suc' add_2_eq_Suc)
qed

lemma fold_concat_map:
  "fold (\<lambda>i. fold W (f i)) ks s = fold W (concat (map f ks)) s"
  by (induction ks arbitrary: s) simp_all

lemma length_concat_uniform:
  "length (concat (map (\<lambda>i. map (g i) [0..<c]) ks)) = length ks * c"
  by (induction ks) simp_all

lemma length_interleaved: "length (interleaved b) = buf_length b * numberOfChannels b"
  by (simp add: interleaved_def length_concat_uniform)

lemma writeSamples_eq:
  assumes "44 + 2 * (buf_length b * numberOfChannels b) \<le> length view"
  shows "writeSamples b view =
     take 44 view @ concat (map int16Bytes (interleaved b)) @
       drop (44 + 2 * (buf_length b * numberOfChannels b)) view"
proof -
  have w: "writeSample b i = (\<lambda>channel. (\<lambda>x (v, off). (setInt16 v off x, off + 2)) (pcmValue (getSample b channel i)))" for i
    by (simp add: writeSample_def fun_eq_iff)
  have "fold (writeSample b i) [0..<numberOfChannels b] =
      fold (\<lambda>x (v, off). (setInt16 v off x, off + 2))
        (map (\<lambda>channel. pcmValue (getSample b channel i)) [0..<numberOfChannels b])" for i
    unfolding w by (simp add: fold_map comp_def)
  then have "fold (\<lambda>i. fold (writeSample b i) [0..<numberOfChannels b]) [0..<buf_length b] (view, 44) =
      fold (\<lambda>x (v, off). (setInt16 v off x, off + 2)) (interleaved b) (view, 44)"
    by (simp add: interleaved_def fold_concat_map)
  then show ?thesis
    unfolding writeSamples_def
    using assms by (simp add: fold_setInt16 length_interleaved del: add_2_eq_Suc' add_2_eq_Suc)
qed

lemma bufferToWav_eq:
  "bufferToWav b =
     take 44 (writeHeader b (replicate (44 + buf_length b * numberOfChannels b * 2) 0)) @
     concat (map int16Bytes (interleaved b))"
  by (simp add: bufferToWav_def writeSamples_eq mult.commute)

lemma length_concat_int16Bytes: "length (concat (map int16Bytes xs)) = 2 * length xs"
  by (induction xs) simp_all

lemma length_bufferToWav:
  "length (bufferToWav b) = 44 + buf_length b * numberOfChannels b * 2"
  by (simp add: bufferToWav_eq length_concat_int16Bytes length_interleaved)

lemma split16: "(w::nat) < 65536 \<Longrightarrow> w mod 256 + 256 * (w div 256) = w"
  by simp

lemma split32:
  assumes "(w::nat) < 4294967296"
  shows "w mod 256 + 256 * (w div 256 mod 256) + 65536 * (w div 65536 mod 256) + 16777216 * (w div 16777216) = w"
proof -
  define a where "a = w div 256"
  define b where "b = a div 256"
  define c where "c = b div 256"
  have 1: "w div 65536 = b" "w div 16777216 = c"
    by (simp_all add: a_def b_def c_def div_mult2_eq)
  have 2: "w = w mod 256 + 256 * a" "a = a mod 256 + 256 * b" "b = b mod 256 + 256 * c"
    by (simp_all add: a_def b_def c_def)
  show ?thesis
    unfolding 1 a_def [symmetric] using 2 by linarith
qed

lemma header_unfold:
  "writeHeader b (replicate n 0) =
     (replicate n 0)
       [0 := 82, 1 := 73, Suc (Suc 0) := 70, 3 := 70,
        4 := (36 + buf_length b * numberOfChannels b * 2) mod 4294967296 mod 256,
        5 := (36 + buf_length b * numberOfChannels b * 2) mod 4294967296 div 256 mod 256,
        6 := (36 + buf_length b * numberOfChannels b * 2) mod 4294967296 div 65536 mod 256,
        7 := (36 + buf_length b * numberOfChannels b * 2) mod 4294967296 div 16777216,
        8 := 87, 9 := 65, 10 := 86, 11 := 69,
        12 := 102, 13 := 109, 14 := 116, 15 := 32,
        16 := 16, 17 := 0, 18 := 0, 19 := 0,
        20 := 1, 21 := 0,
        22 := numberOfChannels b mod 65536 mod 256, 23 := numberOfChannels b mod 65536 div 256,
        24 := sampleRate b mod 4294967296 mod 256,
        25 := sampleRate b mod 4294967296 div 256 mod 256,
        26 := sampleRate b mod 4294967296 div 65536 mod 256,
        27 := sampleRate b mod 4294967296 div 16777216,
        28 := (sampleRate b * numberOfChannels b * 2) mod 4294967296 mod 256,
        29 := (sampleRate b * numberOfChannels b * 2) mod 4294967296 div 256 mod 256,
        30 := (sampleRate b * numberOfChannels b * 2) mod 4294967296 div 65536 mod 256,
        31 := (sampleRate b * numberOfChannels b * 2) mod 4294967296 div 16777216,
        32 := (numberOfChannels b * 2) mod 65536 mod 256, 33 := (numberOfChannels b * 2) mod 65536 div 256,
        34 := 16, 35 := 0,
        36 := 100, 37 := 97, 38 := 116, 39 := 97,
        40 := (buf_length b * numberOfChannels b * 2) mod 4294967296 mod 256,
        41 := (buf_length b * numberOfChannels b * 2) mod 4294967296 div 256 mod 256,
        42 := (buf_length b * numberOfChannels b * 2) mod 4294967296 div 65536 mod 256,
        43 := (buf_length b * numberOfChannels b * 2) mod 4294967296 div 16777216]"
  unfolding writeHeader_def Let_def writeString4 setUint32_def setUint16_def
  by simp

lemma header_fields:
  fixes b :: AudioBuffer
  defines "h \<equiv> writeHeader b (replicate (44 + buf_length b * numberOfChannels b * 2) 0)"
  shows "h ! 20 = 1" "h ! 21 = 0"
    "h ! 22 = numberOfChannels b mod 65536 mod 256" "h ! 23 = numberOfChannels b mod 65536 div 256"
    "h ! 24 = sampleRate b mod 4294967296 mod 256"
    "h ! 25 = sampleRate b mod 4294967296 div 256 mod 256"
    "h ! 26 = sampleRate b mod 4294967296 div 65536 mod 256"
    "h ! 27 = sampleRate b mod 4294967296 div 16777216"
    "h ! 28 = (sampleRate b * numberOfChannels b * 2) mod 4294967296 mod 256"
    "h ! 29 = (sampleRate b * numberOfChannels b * 2) mod 4294967296 div 256 mod 256"
    "h ! 30 = (sampleRate b * numberOfChannels b * 2) mod 4294967296 div 65536 mod 256"
    "h ! 31 = (sampleRate b * numberOfChannels b * 2) mod 4294967296 div 16777216"
    "h ! 32 = (numberOfChannels b * 2) mod 65536 mod 256" "h ! 33 = (numberOfChannels b * 2) mod 65536 div 256"
    "h ! 34 = 16" "h ! 35 = 0"
    "h ! 40 = (buf_length b * numberOfChannels b * 2) mod 4294967296 mod 256"
    "h ! 41 = (buf_length b * numberOfChannels b * 2) mod 4294967296 div 256 mod 256"
    "h ! 42 = (buf_length b * numberOfChannels b * 2) mod 4294967296 div 65536 mod 256"
    "h ! 43 = (buf_length b * numberOfChannels b * 2) mod 4294967296 div 16777216"
  unfolding h_def header_unfold
  by (simp_all only: nth_list_update_neq nth_list_update_eq length_list_update length_replicate)

lemma bufferToWav_header_nth:
  "k < 44 \<Longrightarrow> bufferToWav b ! k =
     writeHeader b (replicate (44 + buf_length b * numberOfChannels b * 2) 0) ! k"
  by (simp add: bufferToWav_eq nth_append)

lemma header_decoded:
  assumes "numberOfChannels b * 2 < 65536" "sampleRate b < 4294967296"
    "sampleRate b * numberOfChannels b * 2 < 4294967296"
    "buf_length b * numberOfChannels b * 2 < 4294967296"
  shows "getUint16 (bufferToWav b) 20 = 1"
    "getUint16 (bufferToWav b) 22 = numberOfChannels b"
    "getUint32 (bufferToWav b) 24 = sampleRate b"
    "getUint32 (bufferToWav b) 28 = sampleRate b * numberOfChannels b * 2"
    "getUint16 (bufferToWav b) 32 = numberOfChannels b * 2"
    "getUint16 (bufferToWav b) 34 = 16"
    "getUint32 (bufferToWav b) 40 = buf_length b * numberOfChannels b * 2"
proof -
  have c: "numberOfChannels b < 65536" using assms(1) by simp
  show "getUint16 (bufferToWav b) 20 = 1" "getUint16 (bufferToWav b) 34 = 16"
    by (simp_all add: getUint16_def bufferToWav_header_nth header_fields)
  show "getUint16 (bufferToWav b) 22 = numberOfChannels b"
    using split16 [OF c] c by (simp add: getUint16_def bufferToWav_header_nth header_fields)
  show "getUint16 (bufferToWav b) 32 = numberOfChannels b * 2"
    using split16 [OF assms(1)] assms(1) by (simp add: getUint16_def bufferToWav_header_nth header_fields)
  show "getUint32 (bufferToWav b) 24 = sampleRate b"
    using split32 [OF assms(2)] assms(2) by (simp add: getUint32_def bufferToWav_header_nth header_fields)
  show "getUint32 (bufferToWav b) 28 = sampleRate b * numberOfChannels b * 2"
    using split32 [OF assms(3)] assms(3) by (simp add: getUint32_def bufferToWav_header_nth header_fields)
  show "getUint32 (bufferToWav b) 40 = buf_length b * numberOfChannels b * 2"
    using split32 [OF assms(4)] assms(4) by (simp add: getUint32_def bufferToWav_header_nth header_fields)
qed

lemma nth_concat_int16Bytes:
  "k < length xs \<Longrightarrow>
     concat (map int16Bytes xs) ! (2 * k) = int16Bytes (xs ! k) ! 0 \<and>
     concat (map int16Bytes xs) ! (2 * k + 1) = int16Bytes (xs ! k) ! 1"
proof (induction xs arbitrary: k)
  case Nil
  then show ?case by simp
next
  case (Cons x xs)
  show ?case
  proof (cases k)
    case 0
    then show ?thesis by (simp add: nth_append)
  next
    case (Suc j)
    then have "j < length xs" using Cons.prems by simp
    from Cons.IH [OF this] show ?thesis
      by (simp add: Suc nth_append)
  qed
qed

lemma nth_concat_uniform:
  "i < length ks \<Longrightarrow> j < c \<Longrightarrow>
     concat (map (\<lambda>i. map (g i) [0..<c]) ks) ! (i * c + j) = g (ks ! i) j"
proof (induction ks arbitrary: i)
  case Nil
  then show ?case by simp
next
  case (Cons k ks)
  show ?case
  proof (cases i)
    case 0
    then show ?thesis using Cons.prems by (simp add: nth_append)
  next
    case (Suc i')
    then have "i' < length ks" using Cons.prems by simp
    from Cons.IH [OF this Cons.prems(2)] show ?thesis
      by (simp add: Suc nth_append)
  qed
qed

lemma nth_interleaved:
  assumes "i < buf_length b" "channel < numberOfChannels b"
  shows "interleaved b ! (i * numberOfChannels b + channel) = pcmValue (getSample b channel i)"
  using nth_concat_uniform [of i "[0..<buf_length b]" channel "numberOfChannels b"
      "\<lambda>i channel. pcmValue (getSample b channel i)"] assms
  by (simp add: interleaved_def)

lemma js_trunc_bounds:
  assumes "- 32767 \<le> x" "x \<le> 32767"
  shows "- 32767 \<le> js_trunc x" "js_trunc x \<le> 32767"
  using assms by (auto simp: js_trunc_def le_floor_iff floor_le_iff ceiling_le_iff le_ceiling_iff)

lemma int16_roundtrip:
  assumes "- 32768 \<le> t" "t < 32768"
  shows "(let w = nat (t mod 65536) mod 65536 in
            if w mod 256 + 256 * (w div 256) < 32768 then int (w mod 256 + 256 * (w div 256))
            else int (w mod 256 + 256 * (w div 256)) - 65536) = t"
proof -
  have w: "nat (t mod 65536) mod 65536 = nat (t mod 65536)"
    by (simp add: nat_less_iff)
  have s: "nat (t mod 65536) mod 256 + 256 * (nat (t mod 65536) div 256) = nat (t mod 65536)"
    by simp
  show ?thesis
  proof (cases "0 \<le> t")
    case True
    then have "t mod 65536 = t" using assms by simp
    then show ?thesis using assms True by (simp add: Let_def w s)
  next
    case False
    then have "t mod 65536 = t + 65536" using assms
      by (smt (verit) mod_add_self2 mod_pos_pos_trivial)
    then show ?thesis using assms False by (simp add: Let_def w s)
  qed
qed

lemma int16Bytes_nth:
  "int16Bytes x ! 0 = nat (js_trunc x mod 65536) mod 65536 mod 256"
  "int16Bytes x ! 1 = nat (js_trunc x mod 65536) mod 65536 div 256"
  unfolding int16Bytes_def Let_def by simp_all

lemma int16Bytes_decode:
  assumes "- 32768 \<le> js_trunc x" "js_trunc x < 32768"
  shows "(let w = int16Bytes x ! 0 + 256 * int16Bytes x ! 1
          in if w < 32768 then int w else int w - 65536) = js_trunc x"
  unfolding int16Bytes_nth using int16_roundtrip [OF assms] unfolding Let_def .

lemma getInt16_sample:
  assumes "wfBuffer b" "i < buf_length b" "channel < numberOfChannels b"
  shows "getInt16 (bufferToWav b) (44 + 2 * (i * numberOfChannels b + channel)) =
     js_trunc (max (- 1) (min 1 (channelData b ! channel ! i)) * 32767)"
proof -
  let ?k = "i * numberOfChannels b + channel"
  let ?x = "max (- 1) (min 1 (channelData b ! channel ! i)) * 32767"
  have len: "length (channelData b ! channel) = buf_length b"
    using assms(1,3) by (simp add: wfBuffer_def numberOfChannels_def list_all_length)
  have px: "pcmValue (getSample b channel i) = ?x"
    using assms(2) by (simp add: pcmValue_def getSample_def Let_def len)
  have "?k < buf_length b * numberOfChannels b"
  proof -
    have "?k < i * numberOfChannels b + numberOfChannels b" using assms(3) by simp
    also have "\<dots> = Suc i * numberOfChannels b" by simp
    also have "\<dots> \<le> buf_length b * numberOfChannels b"
      using assms(2) by (intro mult_le_mono1) simp
    finally show ?thesis .
  qed
  then have k: "?k < length (interleaved b)" by (simp add: length_interleaved)
  have h44: "length (take 44 (writeHeader b (replicate (44 + buf_length b * numberOfChannels b * 2) 0))) = 44"
    by simp
  have n0: "bufferToWav b ! (44 + 2 * ?k) = int16Bytes ?x ! 0"
    and n1: "bufferToWav b ! (44 + 2 * ?k + 1) = int16Bytes ?x ! 1"
    using nth_concat_int16Bytes [OF k] h44
    by (simp_all add: bufferToWav_eq nth_append nth_interleaved [OF assms(2,3)] px
        del: length_take)
  have b1: "- 32767 \<le> ?x" "?x \<le> 32767" by (simp_all add: max_def min_def)
  have t: "- 32768 \<le> js_trunc ?x" "js_trunc ?x < 32768"
    using js_trunc_bounds [OF b1] by simp_all
  have u: "getUint16 (bufferToWav b) (44 + 2 * ?k) = int16Bytes ?x ! 0 + 256 * int16Bytes ?x ! 1"
    unfolding getUint16_def n0 n1 by (rule refl)
  show ?thesis
    unfolding getInt16_def u by (rule int16Bytes_decode [OF t])
qed

text \<open>
  Claim C7. For every well-formed buffer of \<open>n\<close> frames and \<open>c\<close> channels whose sizes fit
  the 16- and 32-bit header fields, \<^verbatim>\<open>bufferToWav\<close> produces exactly \<open>44 + n * c * 2\<close>
  bytes; the header stores, little-endian, format tag 1, the channel count, the sample
  rate, the byte rate \<open>sampleRate * c * 2\<close>, the block align \<open>c * 2\<close>, bit depth 16 and
  the data length \<open>n * c * 2\<close>; the 16-bit value at position \<open>i * c + channel\<close> after the
  header is the sample of that frame and channel, clamped to \<open>[-1, 1]\<close>, scaled by 32767
  and truncated.
\<close>

theorem bufferToWav_layout:
  assumes "wfBuffer b" "numberOfChannels b * 2 < 65536"
    "sampleRate b * numberOfChannels b * 2 < 4294967296"
    "buf_length b * numberOfChannels b * 2 < 4294967296"
  shows "length (bufferToWav b) = 44 + buf_length b * numberOfChannels b * 2 \<and>
     getUint16 (bufferToWav b) 20 = 1 \<and>
     getUint16 (bufferToWav b) 22 = numberOfChannels b \<and>
     getUint32 (bufferToWav b) 24 = sampleRate b \<and>
     getUint32 (bufferToWav b) 28 = sampleRate b * numberOfChannels b * 2 \<and>
     getUint16 (bufferToWav b) 32 = numberOfChannels b * 2 \<and>
     getUint16 (bufferToWav b) 34 = 16 \<and>
     getUint32 (bufferToWav b) 40 = buf_length b * numberOfChannels b * 2 \<and>
     (\<forall>i < buf_length b. \<forall>channel < numberOfChannels b.
        getInt16 (bufferToWav b) (44 + 2 * (i * numberOfChannels b + channel)) =
          js_trunc (max (- 1) (min 1 (channelData b ! channel ! i)) * 32767))"
proof -
  have "0 < numberOfChannels b"
    using assms(1) by (simp add: wfBuffer_def numberOfChannels_def)
  then have "sampleRate b \<le> sampleRate b * numberOfChannels b * 2"
    by simp
  then have r: "sampleRate b < 4294967296" using assms(3) by linarith
  note h = header_decoded [OF assms(2) r assms(3,4)]
  have s: "\<forall>i < buf_length b. \<forall>channel < numberOfChannels b.
        getInt16 (bufferToWav b) (44 + 2 * (i * numberOfChannels b + channel)) =
          js_trunc (max (- 1) (min 1 (channelData b ! channel ! i)) * 32767)"
    using getInt16_sample [OF assms(1)] by blast
  show ?thesis
    by (intro conjI) (rule length_bufferToWav h s)+
qed

theorem bufferToWav_layout_witness:
  "wfBuffer smallBuffer \<and> length (bufferToWav smallBuffer) = 52 \<and>
   getUint16 (bufferToWav smallBuffer) 22 = 2 \<and>
   getUint32 (bufferToWav smallBuffer) 24 = 8000 \<and>
   getUint32 (bufferToWav smallBuffer) 28 = 32000 \<and>
   getUint16 (bufferToWav smallBuffer) 32 = 4 \<and>
   getUint32 (bufferToWav smallBuffer) 40 = 8 \<and>
   getInt16 (bufferToWav smallBuffer) 44 = 16383 \<and>
   getInt16 (bufferToWav smallBuffer) 46 = 32767 \<and>
   getInt16 (bufferToWav smallBuffer) 48 = - 32767 \<and>
   getInt16 (bufferToWav smallBuffer) 50 = 0"
proof -
  have wf: "wfBuffer smallBuffer" by (simp add: wfBuffer_def smallBuffer_def)
  have n: "numberOfChannels smallBuffer = 2" "buf_length smallBuffer = 2" "sampleRate smallBuffer = 8000"
    by (simp_all add: numberOfChannels_def smallBuffer_def)
  note L = bufferToWav_layout [OF wf, unfolded n]
  have L': "length (bufferToWav smallBuffer) = 44 + 2 * 2 * 2 \<and>
     getUint16 (bufferToWav smallBuffer) 20 = 1 \<and>
     getUint16 (bufferToWav smallBuffer) 22 = 2 \<and>
     getUint32 (bufferToWav smallBuffer) 24 = 8000 \<and>
     getUint32 (bufferToWav smallBuffer) 28 = 8000 * 2 * 2 \<and>
     getUint16 (bufferToWav smallBuffer) 32 = 2 * 2 \<and>
     getUint16 (bufferToWav smallBuffer) 34 = 16 \<and>
     getUint32 (bufferToWav smallBuffer) 40 = 2 * 2 * 2 \<and>
     (\<forall>i < 2. \<forall>channel < 2.
        getInt16 (bufferToWav smallBuffer) (44 + 2 * (i * 2 + channel)) =
          js_trunc (max (- 1) (min 1 (channelData smallBuffer ! channel ! i)) * 32767))"
    by (rule L) simp_all
  then have S: "\<And>i channel. i < 2 \<Longrightarrow> channel < 2 \<Longrightarrow>
        getInt16 (bufferToWav smallBuffer) (44 + 2 * (i * 2 + channel)) =
          js_trunc (max (- 1) (min 1 (channelData smallBuffer ! channel ! i)) * 32767)"
    by blast
  have s: "getInt16 (bufferToWav smallBuffer) 44 = 16383" "getInt16 (bufferToWav smallBuffer) 46 = 32767"
    "getInt16 (bufferToWav smallBuffer) 48 = - 32767" "getInt16 (bufferToWav smallBuffer) 50 = 0"
    using S [of 0 0] S [of 0 1] S [of 1 0] S [of 1 1]
    by (simp_all add: smallBuffer_def js_trunc_def)
  show ?thesis using wf L' s by simp
qed

subsection \<open>Trimming twice\<close>

lemma findStart_loud: "\<bar>x\<bar> > 0.005 \<Longrightarrow> findStart (x # xs) i = i"
  by simp

lemma findStart_replicate_loud:
  "0 < n \<Longrightarrow> \<bar>x\<bar> > 0.005 \<Longrightarrow> findStart (replicate n x) i = i"
  by (cases n) simp_all

lemma findStart_silent_prefix: "findStart (replicate m 0 @ ys) i = findStart ys (i + m)"
  by (induction m arbitrary: i) simp_all

lemma trimmed_replicate:
  assumes "k + m \<le> n"
  shows "map (\<lambda>i. if i + k < n then replicate n x ! (i + k) else 0) [0..<m] = replicate m x"
proof -
  have "map (\<lambda>i. if i + k < n then replicate n x ! (i + k) else 0) [0..<m] = map (\<lambda>i. x) [0..<m]"
    using assms by (intro map_cong) auto
  then show ?thesis by (simp add: map_replicate_const)
qed

lemma trimmedBuffer_tone:
  "k + m \<le> n \<Longrightarrow> trimmedBuffer (tone n x) k m = tone m x"
  by (simp add: trimmedBuffer_def tone_def trimmed_replicate)

lemma trimmedBuffer_quietThenTone: "trimmedBuffer quietThenTone 400 400 = tone 400 (1/2)"
proof -
  have "map (\<lambda>i. if i + 400 < 800
                  then (replicate 400 (0::real) @ replicate 400 (1/2)) ! (i + 400) else 0) [0..<400] =
      map (\<lambda>i. 1/2) [0..<400]"
    by (intro map_cong) (auto simp: nth_append)
  then show ?thesis
    by (simp add: trimmedBuffer_def quietThenTone_def tone_def map_replicate_const)
qed

lemma startSampleOf_tone:
  assumes "\<bar>x\<bar> > 0.005" "0 < n"
  shows "startSampleOf 8000 (replicate n x) = (if n > 800 then 800 else 0)"
  using assms by (simp add: startSampleOf_def findStart_replicate_loud Let_def)

lemma startSampleOf_quietThenTone:
  "startSampleOf 8000 (replicate 400 0 @ replicate 400 (1/2)) = 400"
  by (simp add: startSampleOf_def findStart_silent_prefix findStart_replicate_loud Let_def)

lemma blobs_distinct:
  "bufferToWav (tone 1600 x) \<noteq> exampleClip" "bufferToWav (tone 1600 x) \<noteq> quietClip"
  "bufferToWav (tone 400 x) \<noteq> exampleClip" "bufferToWav (tone 400 x) \<noteq> quietClip"
  "bufferToWav (tone 400 x) \<noteq> bufferToWav (tone 1600 y)"
  "bufferToWav (tone 800 x) \<noteq> bufferToWav (tone 1600 y)"
  "quietClip \<noteq> exampleClip"
proof -
  have l: "length (bufferToWav (tone n z)) = 44 + n * 2" for n z
    by (simp add: length_bufferToWav tone_def numberOfChannels_def)
  have e: "length exampleClip = 4" "length quietClip = 5"
    by (simp_all add: exampleClip_def quietClip_def)
  show "bufferToWav (tone 1600 x) \<noteq> exampleClip" "bufferToWav (tone 1600 x) \<noteq> quietClip"
    "bufferToWav (tone 400 x) \<noteq> exampleClip" "bufferToWav (tone 400 x) \<noteq> quietClip"
    using l [of 1600 x] l [of 400 x] e by auto
  show "bufferToWav (tone 400 x) \<noteq> bufferToWav (tone 1600 y)"
    "bufferToWav (tone 800 x) \<noteq> bufferToWav (tone 1600 y)"
    using l [of 1600 y] l [of 400 x] l [of 800 x] by auto
  show "quietClip \<noteq> exampleClip" using e by auto
qed

lemma first_pass_tone: "trimSilence exampleDecode exampleClip = bufferToWav (tone 1600 (1/2))"
  by (simp add: trimSilence_def exampleDecode_def tone_def [of 2400] startSampleOf_tone
      trimmedBuffer_tone [of 800 1600 2400, unfolded tone_def [of 2400]] Let_def)

lemma second_pass_tone:
  "trimSilence exampleDecode (bufferToWav (tone 1600 (1/2))) = bufferToWav (tone 800 (16383/32768))"
  by (simp add: trimSilence_def exampleDecode_def blobs_distinct tone_def [of 1600 "16383/32768"]
      startSampleOf_tone trimmedBuffer_tone [of 800 800 1600, unfolded tone_def [of 1600]] Let_def)

text \<open>
  Claim C3 as stated (\<^verbatim>\<open>trimSilence\<close> is idempotent on every decodable input) fails:
  a recording that decodes to 300 ms of the constant sample 0.5 at 8 kHz starts with a
  sample above the threshold, so \<^verbatim>\<open>startSample\<close> stays 0 and the forced cut removes
  100 ms; the 200 ms that remain start the same way, and the second pass removes another
  100 ms.
\<close>

theorem trimSilence_not_idempotent:
  "exampleDecode exampleClip \<noteq> None \<and>
   trimSilence exampleDecode (trimSilence exampleDecode exampleClip) \<noteq>
     trimSilence exampleDecode exampleClip"
  by (simp add: first_pass_tone second_pass_tone blobs_distinct exampleDecode_def)

lemma first_pass_quiet: "trimSilence exampleDecode quietClip = bufferToWav (tone 400 (1/2))"
  by (simp add: trimSilence_def exampleDecode_def blobs_distinct quietThenTone_def
      startSampleOf_quietThenTone
      trimmedBuffer_quietThenTone [unfolded quietThenTone_def] Let_def)

lemma startSampleOf_Nil: "startSampleOf rate [] = 0"
  by (simp add: startSampleOf_def)

lemma numberOfChannels_trimmedBuffer:
  "numberOfChannels (trimmedBuffer b k m) = numberOfChannels b"
  by (simp add: numberOfChannels_def trimmedBuffer_def)

lemma trimSilence_cut:
  assumes "decode blob = Some out" "channelData out = d0 # rest"
    "\<not> real (startSampleOf (sampleRate out) d0) < real (sampleRate out) * 0.05"
  shows "trimSilence decode blob =
     bufferToWav (trimmedBuffer out (startSampleOf (sampleRate out) d0)
                    (length d0 - startSampleOf (sampleRate out) d0))"
  using assms by (simp add: trimSilence_def Let_def)

text \<open>
  Claim C3, as the code has it. Whatever the decoder, applying \<^verbatim>\<open>trimSilence\<close> to its
  own output returns that output unchanged whenever the output decodes to a buffer whose
  detected or forced trim point is under 50 ms. When the trim point is at 50 ms or beyond
  (at a positive sample rate), the second pass instead returns a WAV file of fewer frames
  than the buffer it decoded.
\<close>

theorem trimSilence_twice:
  assumes "decode (trimSilence decode recorded) = Some out"
  shows "(trimPointBelow50ms out \<longrightarrow>
            trimSilence decode (trimSilence decode recorded) = trimSilence decode recorded) \<and>
         (\<not> trimPointBelow50ms out \<and> 0 < sampleRate out \<longrightarrow>
            length (trimSilence decode (trimSilence decode recorded)) <
              44 + length (hd (channelData out)) * numberOfChannels out * 2)"
proof (intro conjI impI)
  assume "trimPointBelow50ms out"
  with assms show "trimSilence decode (trimSilence decode recorded) = trimSilence decode recorded"
    by (simp add: trimSilence_def [of decode "trimSilence decode recorded"] trimPointBelow50ms_def
        Let_def split: list.splits)
next
  assume a: "\<not> trimPointBelow50ms out \<and> 0 < sampleRate out"
  then obtain d0 rest where d: "channelData out = d0 # rest"
    by (cases "channelData out") (simp_all add: trimPointBelow50ms_def)
  let ?st = "startSampleOf (sampleRate out) d0"
  have n: "\<not> real ?st < real (sampleRate out) * 0.05"
    using a d by (simp add: trimPointBelow50ms_def)
  then have st: "0 < ?st" using a by (cases "?st = 0") simp_all
  then have "d0 \<noteq> []" by (auto simp: startSampleOf_Nil)
  then have l: "length d0 - ?st < length d0" using st by simp
  have c: "0 < numberOfChannels out" by (simp add: numberOfChannels_def d)
  have "length (trimSilence decode (trimSilence decode recorded)) =
      44 + (length d0 - ?st) * numberOfChannels out * 2"
    by (simp add: trimSilence_cut [of decode "trimSilence decode recorded", OF assms d n] length_bufferToWav numberOfChannels_trimmedBuffer)
       (simp add: trimmedBuffer_def)
  also have "\<dots> < 44 + length d0 * numberOfChannels out * 2"
    using l c by simp
  finally show "length (trimSilence decode (trimSilence decode recorded)) <
      44 + length (hd (channelData out)) * numberOfChannels out * 2"
    by (simp add: d)
qed

theorem trimSilence_twice_witness:
  "exampleDecode (trimSilence exampleDecode quietClip) = Some (tone 400 (16383/32768)) \<and>
   trimPointBelow50ms (tone 400 (16383/32768)) \<and>
   trimSilence exampleDecode quietClip \<noteq> quietClip \<and>
   trimSilence exampleDecode (trimSilence exampleDecode quietClip) = trimSilence exampleDecode quietClip \<and>
   exampleDecode (trimSilence exampleDecode exampleClip) = Some (tone 1600 (16383/32768)) \<and>
   \<not> trimPointBelow50ms (tone 1600 (16383/32768)) \<and>
   length (trimSilence exampleDecode exampleClip) = 3244 \<and>
   length (trimSilence exampleDecode (trimSilence exampleDecode exampleClip)) < 3244"
proof -
  have d: "exampleDecode (trimSilence exampleDecode quietClip) = Some (tone 400 (16383/32768))"
    by (simp add: first_pass_quiet exampleDecode_def blobs_distinct)
  have t: "trimPointBelow50ms (tone 400 (16383/32768))"
    by (simp add: trimPointBelow50ms_def tone_def startSampleOf_tone)
  have n: "trimSilence exampleDecode quietClip \<noteq> quietClip"
    by (simp add: first_pass_quiet blobs_distinct)
  have d': "exampleDecode (trimSilence exampleDecode exampleClip) = Some (tone 1600 (16383/32768))"
    by (simp add: first_pass_tone exampleDecode_def blobs_distinct)
  have t': "\<not> trimPointBelow50ms (tone 1600 (16383/32768))"
    by (simp add: trimPointBelow50ms_def tone_def startSampleOf_tone)
  have l: "length (trimSilence exampleDecode exampleClip) = 3244"
    by (simp add: first_pass_tone length_bufferToWav tone_def numberOfChannels_def)
  have r: "0 < sampleRate (tone 1600 (16383/32768))"
    "44 + length (hd (channelData (tone 1600 (16383/32768)))) * numberOfChannels (tone 1600 (16383/32768)) * 2 = 3244"
    by (simp_all add: tone_def numberOfChannels_def)
  show ?thesis
    using trimSilence_twice [of exampleDecode quietClip, OF d] trimSilence_twice [of exampleDecode exampleClip, OF d']
      d t n d' t' l r
    by simp
qed

subsection \<open>Validation on import\<close>

lemma fold_upd_other:
  "list_all (\<lambda>i. f i \<noteq> k) xs \<Longrightarrow> fold (\<lambda>i m. m(f i \<mapsto> g i)) xs m k = m k"
  by (induction xs arbitrary: m) auto

lemma toString_1: "toString 1 = ''1''"
  by code_simp

lemma toString_not_1: "list_all (\<lambda>i. toString i \<noteq> ''1'') [2..<37]"
  by code_simp

lemma imported_pad_1:
  "fold (\<lambda>i m. m(toString i \<mapsto> g i)) [1..<37] Map.empty ''1'' = Some (g 1)"
proof -
  have "(1::nat) < 37" by simp
  from upt_conv_Cons [OF this] have l: "[1..<37] = 1 # [2..<37]"
    by (simp only: Suc_1)
  have "fold (\<lambda>i m. m(toString i \<mapsto> g i)) [2..<37] (Map.empty(toString 1 \<mapsto> g 1)) ''1'' =
      (Map.empty(toString 1 \<mapsto> g 1)) ''1''"
    by (rule fold_upd_other [OF toString_not_1])
  then show ?thesis
    unfolding l fold_simps by (simp only: toString_1 fun_upd_same)
qed

text \<open>What the three checks do guarantee: a name without the \<^verbatim>\<open>.zip\<close> suffix, an
  archive without \<^verbatim>\<open>settings.json\<close>, and settings that parse to \<^verbatim>\<open>null\<close>, a boolean,
  a number or a string each raise their own error and leave the whole state as it was.\<close>

lemma importData_validation:
  "(\<not> endsWith (fileName file) ''.zip'' \<longrightarrow>
      importData file s = (Some (Error ''Invalid file type. Please select a .zip file.''), s)) \<and>
   (endsWith (fileName file) ''.zip'' \<and> zipContent file = Some archive \<and>
    settingsEntry archive = None \<longrightarrow>
      importData file s = (Some (Error ''Invalid export file: settings.json not found''), s)) \<and>
   (endsWith (fileName file) ''.zip'' \<and> zipContent file = Some archive \<and>
    settingsEntry archive = Some (Some settings) \<and>
    (case settings of JArr _ \<Rightarrow> False | JObj _ \<Rightarrow> False | _ \<Rightarrow> True) \<longrightarrow>
      importData file s = (Some (Error ''Invalid settings.json format''), s))"
  by (auto simp: importData_def jsTruthy_def typeofObject_def split: json.splits)

text \<open>
  Claim C10. \<^verbatim>\<open>importData\<close> fails atomically on validation: a file whose
  \<^verbatim>\<open>settings.json\<close> is not a JSON object is rejected with the state unchanged. The
  check is \<^verbatim>\<open>!settings || typeof settings !== "object"\<close>, which a JSON array passes:
  an archive whose settings are \<^verbatim>\<open>[]\<close> is imported without error, and slot 1, which
  held a clip, is reset to the default pad.
\<close>

theorem import_array_resets_pads:
  "fst (importData arrayFile (engineWith (echoPad (3/10)))) = None \<and>
   map_option audioBlob (audioData (engineWith (echoPad (3/10))) ''1'') = Some (Some exampleClip) \<and>
   audioData (snd (importData arrayFile (engineWith (echoPad (3/10))))) ''1'' = Some (defaultPad ''1'')"
proof -
  have e: "endsWith ''pads.zip'' ''.zip''" by (simp add: endsWith_def)
  have p: "importPad (JArr []) \<lparr>settingsEntry = Some (Some (JArr [])), files = []\<rparr> 1 = defaultPad ''1''"
    using toString_1 by (simp add: importPad_def padSettingsOf_def)
  show ?thesis
    by (simp add: importData_def arrayFile_def e jsTruthy_def typeofObject_def jsMember_def
        Let_def imported_pad_1 [unfolded One_nat_def] p [unfolded One_nat_def]
        engineWith_def echoPad_def)
qed

text \<open>The guard of the structure check at that input: the empty array is truthy and of
  type \<^verbatim>\<open>"object"\<close>, so the import goes through.\<close>

theorem import_array_resets_pads_witness:
  "jsTruthy (JArr []) \<and> typeofObject (JArr []) \<and>
   fst (importData arrayFile (engineWith (echoPad (3/10)))) = None"
  using import_array_resets_pads by (simp add: jsTruthy_def typeofObject_def)

end
